theory Spec2Isabelle
  imports Complex_Main
begin

section \<open>Python values and exceptions\<close>

text \<open>
  The values \<^verbatim>\<open>json.load\<close> produces and \<^verbatim>\<open>json.dump\<close> accepts (values the
  interpreter can parse and write: nesting within its recursion limit, integers within its
  digit limit). Python's \<^verbatim>\<open>None\<close> is \<open>JNull\<close>. A dict is an association list in
  insertion order (the keys of a parsed dict are distinct). \<open>JFloat\<close> carries the value of
  a finite float.
\<close>

datatype json =
    JNull
  | JBool bool
  | JInt int
  | JFloat real
  | JStr string
  | JArr "json list"
  | JObj "(string \<times> json) list"

text \<open>The exceptions the modelled code raises or lets through.\<close>

datatype exn =
    FileNotFoundError
  | JSONDecodeError
  | TypeError
  | IndexError
  | KeyError
  | AttributeError
  | ValidationError
  | UnicodeDecodeError
  | OverflowError
  | ValueError
  | IOError string
  | VideoUnavailable string
  | HTTPException nat string
  | Exception string
  | OtherError string

text \<open>
  What \<^verbatim>\<open>get_item\<close> hands back: a JSON value (\<open>Json JNull\<close> is \<^verbatim>\<open>None\<close>), or
  a \<^verbatim>\<open>CacheItem\<close> tuple \<^verbatim>\<open>(value, expires_at)\<close> as \<^verbatim>\<open>_create_item\<close> builds it.
\<close>

datatype pyval = Json json | Tuple json int

section \<open>Floats and datetimes\<close>

text \<open>
  A Python float is a binary64 number. \<open>true_divide p q\<close> is \<^verbatim>\<open>p / q\<close> for two
  Python integers with \<open>q > 0\<close>: the quotient rounded to the nearest binary64 number,
  ties to the even significand (overflow and subnormal numbers are not reached by the
  quotients of this program). With \<open>2\<^sup>e \<le> |p / q| < 2\<^sup>e\<^sup>+\<^sup>1\<close> the binary64 numbers
  around the quotient are the multiples of \<open>2\<^sup>e\<^sup>-\<^sup>5\<^sup>2\<close>.
\<close>

definition round_half_even :: "real \<Rightarrow> int" where
  "round_half_even x =
     (let f = \<lfloor>x\<rfloor>; d = x - of_int f
      in if d < 1/2 then f else if 1/2 < d then f + 1 else if even f then f else f + 1)"

fun ilog2 :: "nat \<Rightarrow> nat" where
  "ilog2 n = (if n < 2 then 0 else Suc (ilog2 (n div 2)))"

declare ilog2.simps [simp del]

definition float_exponent :: "int \<Rightarrow> int \<Rightarrow> int" where
  "float_exponent p q =
     (let d = int (ilog2 (nat p)) - int (ilog2 (nat q))
      in if 2 powi d * of_int q \<le> (of_int p :: real) then d else d - 1)"

definition true_divide :: "int \<Rightarrow> int \<Rightarrow> real" where
  "true_divide p q =
     (if p = 0 then 0
      else (let a = \<bar>p\<bar>;
                ulp = 2 powi (float_exponent a q - 52);
                m = round_half_even (of_int a / (of_int q * ulp))
            in (if p < 0 then - 1 else 1) * of_int m * ulp))"

text \<open>\<^verbatim>\<open>int(x)\<close> for a float: truncation towards zero.\<close>

definition int_of_float :: "real \<Rightarrow> int" where
  "int_of_float x = (if 0 \<le> x then \<lfloor>x\<rfloor> else \<lceil>x\<rceil>)"

text \<open>
  A \<^verbatim>\<open>datetime\<close> in UTC is a whole number of microseconds since the Unix epoch,
  between the first instant of the year 1 and the last of the year 9999; a
  \<^verbatim>\<open>timedelta\<close> is a whole number of microseconds. Adding the two raises
  \<^verbatim>\<open>OverflowError\<close> when the sum leaves that range. \<^verbatim>\<open>.timestamp()\<close> is the
  float \<^verbatim>\<open>microseconds / 10**6\<close>.
\<close>

definition datetime_min :: int where
  "datetime_min = - 62135596800000000"

definition datetime_max :: int where
  "datetime_max = 253402300799999999"

typedef datetime = "{us :: int. datetime_min \<le> us \<and> us \<le> datetime_max}"
  morphisms microseconds datetime_of
proof
  show "0 \<in> {us :: int. datetime_min \<le> us \<and> us \<le> datetime_max}"
    by (simp add: datetime_min_def datetime_max_def)
qed

definition add_timedelta :: "datetime \<Rightarrow> int \<Rightarrow> exn + datetime" where
  "add_timedelta t delta =
     (let us = microseconds t + delta
      in if datetime_min \<le> us \<and> us \<le> datetime_max then Inr (datetime_of us)
         else Inl OverflowError)"

definition timestamp :: "datetime \<Rightarrow> real" where
  "timestamp t = true_divide (microseconds t) 1000000"

section \<open>cache\_storage.py\<close>

text \<open>
  The disk maps a path to what \<^verbatim>\<open>open\<close> and \<^verbatim>\<open>json.load\<close> find there, for files
  the process may read and write: text that is not JSON (\<^verbatim>\<open>JSONDecodeError\<close>), bytes
  that are not text in the encoding of \<^verbatim>\<open>open\<close>, such as a file that is not valid UTF-8
  (\<^verbatim>\<open>UnicodeDecodeError\<close>), or a JSON document, given by the value \<^verbatim>\<open>json.load\<close>
  returns for it. A path with no file maps to \<open>None\<close> when its directory exists
  (\<^verbatim>\<open>open\<close> raises \<^verbatim>\<open>FileNotFoundError\<close> for reading and creates the file for
  writing) and to \<open>NoDirectory\<close> when it does not (\<^verbatim>\<open>open\<close> raises
  \<^verbatim>\<open>FileNotFoundError\<close> for reading and for writing).
\<close>

datatype content = NoDirectory | NotJson | NotUtf8 | Doc json

type_synonym disk = "string \<rightharpoonup> content"

type_synonym CacheItem = "json \<times> int"

record CacheStorage =
  cache_path :: string
  mem_cache :: "string \<rightharpoonup> CacheItem"
  item_lifetime :: int

definition init_CacheStorage :: "string \<Rightarrow> string option \<Rightarrow> int \<Rightarrow> CacheStorage" where
  "init_CacheStorage settings_CACHE_PATH cache_path_arg lifetime =
     \<lparr> cache_path = (case cache_path_arg of
                       None \<Rightarrow> settings_CACHE_PATH
                     | Some p \<Rightarrow> if p = [] then settings_CACHE_PATH else p),
       mem_cache = Map.empty,
       item_lifetime = lifetime \<rparr>"

text \<open>\<^verbatim>\<open>x[i]\<close> for a literal index \<open>i\<close> on a decoded JSON value.\<close>

fun subscript :: "json \<Rightarrow> nat \<Rightarrow> exn + json" where
  "subscript (JArr xs) i = (if i < length xs then Inr (xs ! i) else Inl IndexError)"
| "subscript (JStr s) i = (if i < length s then Inr (JStr [s ! i]) else Inl IndexError)"
| "subscript (JObj kvs) i = Inl KeyError"
| "subscript j i = Inl TypeError"

text \<open>
  \<^verbatim>\<open>now.timestamp() > x\<close>: a float is compared with an integer, a boolean (an
  integer in Python) or a float by value.
\<close>

fun timestamp_gt :: "datetime \<Rightarrow> json \<Rightarrow> exn + bool" where
  "timestamp_gt now (JInt e) = Inr (timestamp now > of_int e)"
| "timestamp_gt now (JBool b) = Inr (timestamp now > (if b then 1 else 0))"
| "timestamp_gt now (JFloat f) = Inr (timestamp now > f)"
| "timestamp_gt now j = Inl TypeError"

text \<open>
  \<^verbatim>\<open>_has_expired\<close>:
  \<^verbatim>\<open>return datetime.now(timezone.utc).timestamp() > item[1]\<close>
\<close>

definition has_expired :: "datetime \<Rightarrow> json \<Rightarrow> exn + bool" where
  "has_expired now item =
     (case subscript item 1 of
        Inl err \<Rightarrow> Inl err
      | Inr x \<Rightarrow> timestamp_gt now x)"

text \<open>A tuple is subscripted like the two-element list \<^verbatim>\<open>json.dump\<close> writes for it.\<close>

definition item_json :: "CacheItem \<Rightarrow> json" where
  "item_json item = JArr [fst item, JInt (snd item)]"

text \<open>
  \<^verbatim>\<open>_create_item\<close>:
  \<^verbatim>\<open>new_expiration = datetime.now(timezone.utc) + self.item_lifetime\<close>
  \<^verbatim>\<open>return (value, int(new_expiration.timestamp()))\<close>
\<close>

definition create_item :: "CacheStorage \<Rightarrow> datetime \<Rightarrow> json \<Rightarrow> exn + CacheItem" where
  "create_item self now v =
     (case add_timedelta now (item_lifetime self) of
        Inl err \<Rightarrow> Inl err
      | Inr new_expiration \<Rightarrow> Inr (v, int_of_float (timestamp new_expiration)))"

text \<open>
  The \<^verbatim>\<open>try\<close> block of \<^verbatim>\<open>get_item\<close>: \<^verbatim>\<open>item\<close> after it (\<open>JNull\<close> when the two
  caught exceptions leave it \<^verbatim>\<open>None\<close>), or the exception that is not caught:
  \<^verbatim>\<open>UnicodeDecodeError\<close> from reading the file, \<^verbatim>\<open>AttributeError\<close> from
  \<^verbatim>\<open>cache.get\<close>, which exists on a dict only.
\<close>

fun load_entry :: "content option \<Rightarrow> string \<Rightarrow> exn + json" where
  "load_entry None key = Inr JNull"
| "load_entry (Some NoDirectory) key = Inr JNull"
| "load_entry (Some NotJson) key = Inr JNull"
| "load_entry (Some NotUtf8) key = Inl UnicodeDecodeError"
| "load_entry (Some (Doc (JObj kvs))) key =
     Inr (case map_of kvs key of None \<Rightarrow> JNull | Some j \<Rightarrow> j)"
| "load_entry (Some (Doc j)) key = Inl AttributeError"

text \<open>
  \<^verbatim>\<open>get_item\<close>. The clock is read once in each \<^verbatim>\<open>_has_expired\<close> call: \<open>t1\<close>
  for the entry of \<^verbatim>\<open>mem_cache\<close>, \<open>t2\<close> for the entry of the file.
\<close>

definition get_item ::
  "CacheStorage \<Rightarrow> disk \<Rightarrow> datetime \<Rightarrow> datetime \<Rightarrow> string \<Rightarrow> exn + pyval" where
  "get_item self fs t1 t2 key =
     (let from_file =
        (case load_entry (fs (cache_path self)) key of
           Inl err \<Rightarrow> Inl err
         | Inr item \<Rightarrow>
             if item = JNull then Inr (Json JNull)
             else (case has_expired t2 item of
                     Inl err \<Rightarrow> Inl err
                   | Inr True \<Rightarrow> Inr (Json JNull)
                   | Inr False \<Rightarrow>
                       (case subscript item 0 of
                          Inl err \<Rightarrow> Inl err
                        | Inr v \<Rightarrow> Inr (Json v))))
      in case mem_cache self key of
           None \<Rightarrow> from_file
         | Some item \<Rightarrow>
             (case has_expired t1 (item_json item) of
                Inl err \<Rightarrow> Inl err
              | Inr False \<Rightarrow> Inr (Tuple (fst item) (snd item))
              | Inr True \<Rightarrow> from_file))"

text \<open>\<^verbatim>\<open>cache[key] = item\<close> on a dict: an existing key keeps its place.\<close>

fun dict_set :: "(string \<times> json) list \<Rightarrow> string \<Rightarrow> json \<Rightarrow> (string \<times> json) list" where
  "dict_set [] k v = [(k, v)]"
| "dict_set ((k', v') # kvs) k v =
     (if k' = k then (k, v) # kvs else (k', v') # dict_set kvs k v)"

text \<open>
  \<^verbatim>\<open>set_item\<close>: the result, the object and the disk after the call. When an exception
  leaves the call (\<^verbatim>\<open>OverflowError\<close> from \<^verbatim>\<open>_create_item\<close>,
  \<^verbatim>\<open>UnicodeDecodeError\<close> from reading the file, \<^verbatim>\<open>FileNotFoundError\<close> from
  the \<^verbatim>\<open>open\<close> of the handler when there is no directory, \<^verbatim>\<open>TypeError\<close> from
  \<^verbatim>\<open>cache[key] = item\<close> on a JSON document that is not an object), nothing has been
  written yet and \<^verbatim>\<open>mem_cache\<close> is not reached.
\<close>

definition set_item ::
  "CacheStorage \<Rightarrow> disk \<Rightarrow> datetime \<Rightarrow> string \<Rightarrow> json \<Rightarrow> (exn + unit) \<times> CacheStorage \<times> disk" where
  "set_item self fs now key v =
     (case create_item self now v of
        Inl err \<Rightarrow> (Inl err, self, fs)
      | Inr item \<Rightarrow>
          (let stored = self\<lparr>mem_cache := (mem_cache self)(key \<mapsto> item)\<rparr>;
               path = cache_path self;
               recreated = fs(path \<mapsto> Doc (JObj [(key, item_json item)]))
           in case fs path of
                None \<Rightarrow> (Inr (), stored, recreated)
              | Some NoDirectory \<Rightarrow> (Inl FileNotFoundError, self, fs)
              | Some NotJson \<Rightarrow> (Inr (), stored, recreated)
              | Some NotUtf8 \<Rightarrow> (Inl UnicodeDecodeError, self, fs)
              | Some (Doc (JObj kvs)) \<Rightarrow>
                  (Inr (), stored, fs(path \<mapsto> Doc (JObj (dict_set kvs key (item_json item)))))
              | Some (Doc j) \<Rightarrow> (Inl TypeError, self, fs)))"

section \<open>settings.py and the libraries\<close>

record settings =
  SPOTIFY_API_SEARCH_URL :: string
  FFMPEG_PATH :: string
  MOCK_MODE :: bool
  CACHE_PATH :: string

text \<open>
  Library functions the code calls and whose code is not part of the repository, taken as
  parameters: \<^verbatim>\<open>urllib.parse.unquote\<close> and \<^verbatim>\<open>quote\<close>, \<^verbatim>\<open>str.lower\<close>, and
  pydantic's \<^verbatim>\<open>str(model)\<close> and \<^verbatim>\<open>model_validate\<close> (\<open>None\<close> when it raises
  \<^verbatim>\<open>ValidationError\<close>).
\<close>

record TrackMetadata =
  title :: string
  artist :: string
  album :: string
  album_cover_url :: string

record PartialTrackMetadata =
  partial_title :: string
  partial_artist :: string
  partial_album :: "string option"

datatype SpotifyAlbumImage = SpotifyAlbumImage (url: string) (height: int) (width: int)

datatype SpotifyAlbum = SpotifyAlbum (album_name: string) (album_images: "SpotifyAlbumImage list")

datatype SpotifyArtist = SpotifyArtist (artist_name: string)

datatype SpotifyTrack =
  SpotifyTrack (track_name: string) (track_album: SpotifyAlbum) (artists: "SpotifyArtist list")

datatype SpotifyTracksResult = SpotifyTracksResult (total: int) (items: "SpotifyTrack list")

datatype SpotifySearchResponse = SpotifySearchResponse (tracks: SpotifyTracksResult)

record lib =
  url_decode :: "string \<Rightarrow> string"
  url_encode :: "string \<Rightarrow> string"
  lower :: "string \<Rightarrow> string"
  str_partial :: "PartialTrackMetadata \<Rightarrow> string"
  validate_track :: "json \<Rightarrow> TrackMetadata option"
  validate_search :: "json \<Rightarrow> SpotifySearchResponse option"

text \<open>
  An HTTP response: its status and its body. Where the code reads the body with
  \<^verbatim>\<open>response.json()\<close>, which is \<^verbatim>\<open>json.loads\<close> on the bytes, the body is given by
  what that call finds: bytes that are not text in a Unicode encoding
  (\<^verbatim>\<open>UnicodeDecodeError\<close>), text that is not JSON (\<^verbatim>\<open>JSONDecodeError\<close>), or a JSON
  document, given by the value returned for it.
\<close>

record 'b response =
  status_code :: int
  body :: 'b

datatype payload = NotUnicode | NotJsonText | JsonText json

section \<open>utils.py\<close>

subsection \<open>search\_track\_metadata\_options\<close>

text \<open>
  The metadata provider as the code meets it. \<^verbatim>\<open>get_spotify_api_token\<close> is represented
  by its outcome: it raises, returns \<^verbatim>\<open>None\<close> or returns a token, and leaves the cache
  in some state. \<open>search_get\<close> is the \<^verbatim>\<open>client.get\<close> of the search URL with the
  bearer token.
\<close>

record spotify =
  get_spotify_api_token ::
    "CacheStorage option \<Rightarrow> disk \<Rightarrow> (exn + string option) \<times> CacheStorage option \<times> disk"
  search_get :: "string \<Rightarrow> string \<Rightarrow> exn + payload response"

text \<open>\<^verbatim>\<open>for data in x\<close>: the elements a Python value yields, or \<^verbatim>\<open>TypeError\<close>.\<close>

fun py_iter :: "pyval \<Rightarrow> exn + json list" where
  "py_iter (Tuple v e) = Inr [v, JInt e]"
| "py_iter (Json (JArr xs)) = Inr xs"
| "py_iter (Json (JStr s)) = Inr (map (\<lambda>c. JStr [c]) s)"
| "py_iter (Json (JObj kvs)) = Inr (map (\<lambda>kv. JStr (fst kv)) kvs)"
| "py_iter (Json j) = Inl TypeError"

text \<open>\<^verbatim>\<open>s.replace(' ', '%20')\<close> and \<^verbatim>\<open>sep.join(xs)\<close>.\<close>

definition replace_spaces :: "string \<Rightarrow> string" where
  "replace_spaces s = concat (map (\<lambda>c. if c = CHR '' '' then ''%20'' else [c]) s)"

fun join :: "string \<Rightarrow> string list \<Rightarrow> string" where
  "join sep [] = []"
| "join sep [x] = x"
| "join sep (x # y # ys) = x @ sep @ join sep (y # ys)"

definition model_dump :: "TrackMetadata \<Rightarrow> json" where
  "model_dump m =
     JObj [(''title'', JStr (title m)), (''artist'', JStr (artist m)),
           (''album'', JStr (album m)), (''album_cover_url'', JStr (album_cover_url m))]"

text \<open>
  The first \<^verbatim>\<open>try\<close> block: \<open>Inr (Some ms)\<close> is the early return of the cached list,
  \<open>Inr None\<close> falls through (no cache, nothing cached, or \<^verbatim>\<open>ValidationError\<close> caught),
  \<open>Inl\<close> is an exception that is not caught.
\<close>

definition cached_options ::
  "lib \<Rightarrow> CacheStorage option \<Rightarrow> disk \<Rightarrow> datetime \<Rightarrow> datetime \<Rightarrow> string \<Rightarrow>
   exn + TrackMetadata list option" where
  "cached_options l cache fs t1 t2 cache_key =
     (case cache of
        None \<Rightarrow> Inr None
      | Some c \<Rightarrow>
          (case get_item c fs t1 t2 cache_key of
             Inl err \<Rightarrow> Inl err
           | Inr cached_metadata \<Rightarrow>
               if cached_metadata = Json JNull then Inr None
               else (case py_iter cached_metadata of
                       Inl err \<Rightarrow> Inl err
                     | Inr xs \<Rightarrow> Inr (those (map (validate_track l) xs)))))"

text \<open>
  One element of the \<^verbatim>\<open>metadata_options\<close> comprehension; \<^verbatim>\<open>images[0]\<close> raises
  \<^verbatim>\<open>IndexError\<close> on an empty list.
\<close>

definition track_metadata :: "SpotifyTrack \<Rightarrow> exn + TrackMetadata" where
  "track_metadata track =
     (case album_images (track_album track) of
        [] \<Rightarrow> Inl IndexError
      | img # _ \<Rightarrow>
          Inr \<lparr> title = track_name track,
                artist = join '' & '' (map artist_name (artists track)),
                album = album_name (track_album track),
                album_cover_url = url img \<rparr>)"

fun collect :: "('a \<Rightarrow> exn + 'b) \<Rightarrow> 'a list \<Rightarrow> exn + 'b list" where
  "collect f [] = Inr []"
| "collect f (x # xs) =
     (case f x of
        Inl err \<Rightarrow> Inl err
      | Inr y \<Rightarrow> (case collect f xs of Inl err \<Rightarrow> Inl err | Inr ys \<Rightarrow> Inr (y # ys)))"

text \<open>
  The URL of the search request:
  \<^verbatim>\<open>query = title + ' ' + artist\<close>,
  \<^verbatim>\<open>filters = f'track:{title} artist:{artist}'\<close> (and \<^verbatim>\<open>f' album:{album}'\<close> when the
  album is not empty),
  \<^verbatim>\<open>q = url_encode((query + ' ' + filters).replace(' ', '%20'))\<close>.
\<close>

definition search_url :: "settings \<Rightarrow> lib \<Rightarrow> PartialTrackMetadata \<Rightarrow> string" where
  "search_url st l partial_metadata =
     (let query = partial_title partial_metadata @ '' '' @ partial_artist partial_metadata;
          filters0 = ''track:'' @ partial_title partial_metadata
                     @ '' artist:'' @ partial_artist partial_metadata;
          filters = (case partial_album partial_metadata of
                       None \<Rightarrow> filters0
                     | Some a \<Rightarrow> if a = [] then filters0 else filters0 @ '' album:'' @ a);
          q = url_encode l (replace_spaces (query @ '' '' @ filters))
      in SPOTIFY_API_SEARCH_URL st @ ''?q='' @ q @ ''&type=track&limit=10'')"

text \<open>
  \<^verbatim>\<open>search_track_metadata_options\<close>: the result, the cache object and the disk after the
  call. \<open>t1\<close> and \<open>t2\<close> are the clock readings of the \<^verbatim>\<open>get_item\<close> call, \<open>t3\<close>
  that of the \<^verbatim>\<open>set_item\<close> call.
\<close>

definition search_track_metadata_options ::
  "settings \<Rightarrow> lib \<Rightarrow> spotify \<Rightarrow> datetime \<Rightarrow> datetime \<Rightarrow> datetime \<Rightarrow> PartialTrackMetadata \<Rightarrow>
   CacheStorage option \<Rightarrow> disk \<Rightarrow> (exn + TrackMetadata list) \<times> CacheStorage option \<times> disk" where
  "search_track_metadata_options st l sp t1 t2 t3 partial_metadata cache fs =
     (let cache_key = lower l (str_partial l partial_metadata)
      in case cached_options l cache fs t1 t2 cache_key of
           Inl err \<Rightarrow> (Inl err, cache, fs)
         | Inr (Some ms) \<Rightarrow> (Inr ms, cache, fs)
         | Inr None \<Rightarrow>
             (case get_spotify_api_token sp cache fs of
                (Inl err, cache1, fs1) \<Rightarrow> (Inl err, cache1, fs1)
              | (Inr None, cache1, fs1) \<Rightarrow> (Inl (HTTPException 500 []), cache1, fs1)
              | (Inr (Some token), cache1, fs1) \<Rightarrow>
                  (case search_get sp (search_url st l partial_metadata) (''Bearer '' @ token) of
                     Inl err \<Rightarrow> (Inl err, cache1, fs1)
                   | Inr resp \<Rightarrow>
                       if \<not> (200 \<le> status_code resp \<and> status_code resp < 300)
                       then (Inr [], cache1, fs1)
                       else (case body resp of
                               NotUnicode \<Rightarrow> (Inl UnicodeDecodeError, cache1, fs1)
                             | NotJsonText \<Rightarrow> (Inl JSONDecodeError, cache1, fs1)
                             | JsonText j \<Rightarrow>
                                 (case validate_search l j of
                                    None \<Rightarrow> (Inr [], cache1, fs1)
                                  | Some data \<Rightarrow>
                                      (case collect track_metadata (items (tracks data)) of
                                         Inl err \<Rightarrow> (Inl err, cache1, fs1)
                                       | Inr metadata_options \<Rightarrow>
                                           (case cache1 of
                                              None \<Rightarrow> (Inr metadata_options, cache1, fs1)
                                            | Some c \<Rightarrow>
                                                (case set_item c fs1 t3 cache_key
                                                        (JArr (map model_dump metadata_options)) of
                                                   (Inl err, c', fs2) \<Rightarrow> (Inl err, Some c', fs2)
                                                 | (Inr u, c', fs2) \<Rightarrow>
                                                     (Inr metadata_options, Some c', fs2)))))))))"

subsection \<open>download\_youtube\_video and convert\_mp4\_to\_mp3\<close>

text \<open>
  The ID3 tag eyed3 builds and the files of the media pipeline: a file holds audio bytes
  and, once \<^verbatim>\<open>tag.save\<close> has run on it, the tag that was saved, with the frames as
  they were set (the layout of the frames in bytes is eyed3's and is not modelled).
  \<^verbatim>\<open>os.path.isfile\<close> holds of the paths the map is defined on.
\<close>

datatype picture_type = OTHER | ICON | OTHER_ICON | FRONT_COVER | BACK_COVER

record ImageFrame =
  img_data :: string
  type_ :: picture_type
  mime_type :: string
  description :: string

record LyricsFrame =
  lyrics_text :: string
  lyrics_description :: string
  lang :: string

record Tag =
  tag_title :: "string option"
  tag_artist :: "string option"
  tag_album :: "string option"
  images :: "ImageFrame list"
  lyrics :: "LyricsFrame list"

record media_file =
  audio :: string
  id3 :: "Tag option"

type_synonym files = "string \<rightharpoonup> media_file"

definition isfile :: "files \<Rightarrow> string \<Rightarrow> bool" where
  "isfile fs p = (fs p \<noteq> None)"

text \<open>
  The collaborators of the pipeline, by their outcomes. \<open>get_audio_only\<close> is
  \<^verbatim>\<open>pytube.YouTube.from_id(video_id).streams.get_audio_only('mp4')\<close>: it raises or
  returns a stream or \<^verbatim>\<open>None\<close>. \<open>stream_download\<close> is the outcome of
  \<^verbatim>\<open>audio_stream.download\<close> after its retries: it raises or writes the bytes given.
  \<open>subprocess_run\<close> is \<^verbatim>\<open>subprocess.run\<close> on an argument vector: it raises (the
  program cannot be started) or gives the return code of the process and the files it
  wrote. \<open>httpx_get\<close> raises or returns a response. \<open>tag_save_error\<close> is the exception
  of \<^verbatim>\<open>tag.save\<close>, if it raises one. The two stems are the names
  \<^verbatim>\<open>tempfile\<close> picks, before the suffix. The collaborators write files; they do not
  unlink the placeholders they are given.
\<close>

record media_env =
  get_audio_only :: "string \<Rightarrow> exn + string option"
  stream_download :: "string \<Rightarrow> exn + string"
  subprocess_run :: "string list \<Rightarrow> exn + int \<times> (string \<times> string) list"
  httpx_get :: "string \<Rightarrow> exn + string response"
  tag_save_error :: "exn option"
  tmp_mp4_stem :: string
  tmp_mp3_stem :: string

definition not_found :: "string \<Rightarrow> exn" where
  "not_found video_id = HTTPException 404 (''No video found with ID '' @ video_id)"

definition download_youtube_video ::
  "media_env \<Rightarrow> files \<Rightarrow> string \<Rightarrow> string \<Rightarrow> (exn + unit) \<times> files" where
  "download_youtube_video env fs video_id filepath =
     (if \<not> isfile fs filepath
      then (Inl (IOError (''`filepath` must be a valid filepath: '' @ filepath)), fs)
      else (case get_audio_only env video_id of
              Inl (VideoUnavailable x) \<Rightarrow> (Inl (not_found video_id), fs)
            | Inl err \<Rightarrow> (Inl err, fs)
            | Inr None \<Rightarrow> (Inl (not_found video_id), fs)
            | Inr (Some audio_stream) \<Rightarrow>
                (case stream_download env audio_stream of
                   Inl err \<Rightarrow> (Inl err, fs)
                 | Inr bytes \<Rightarrow> (Inr (), fs(filepath \<mapsto> \<lparr>audio = bytes, id3 = None\<rparr>)))))"

text \<open>\<^verbatim>\<open>s.split(c)\<close> for a one-character separator, and \<^verbatim>\<open>s.endswith(suffix)\<close>.\<close>

fun split :: "char \<Rightarrow> string \<Rightarrow> string list" where
  "split c [] = [[]]"
| "split c (x # xs) =
     (if x = c then [] # split c xs
      else (case split c xs of [] \<Rightarrow> [[x]] | w # ws \<Rightarrow> (x # w) # ws))"

definition endswith :: "string \<Rightarrow> string \<Rightarrow> bool" where
  "endswith s suffix =
     (length suffix \<le> length s \<and> drop (length s - length suffix) s = suffix)"

text \<open>A process writes files: each pair is a path and the bytes written there.\<close>

fun write_files :: "files \<Rightarrow> (string \<times> string) list \<Rightarrow> files" where
  "write_files fs [] = fs"
| "write_files fs ((p, bytes) # ws) = write_files (fs(p \<mapsto> \<lparr>audio = bytes, id3 = None\<rparr>)) ws"

text \<open>
  \<^verbatim>\<open>convert_mp4_to_mp3\<close>: the result, the files after the call, and the argument vectors
  of the subprocesses it ran, in order.
\<close>

definition convert_mp4_to_mp3 ::
  "settings \<Rightarrow> media_env \<Rightarrow> files \<Rightarrow> string \<Rightarrow> string \<Rightarrow> (exn + unit) \<times> files \<times> string list list" where
  "convert_mp4_to_mp3 st env fs mp4_filepath mp3_filepath =
     (if \<not> endswith mp4_filepath ''.mp4'' \<or> \<not> isfile fs mp4_filepath
      then (Inl (IOError ''`mp4_filepath` must be an existing file with the \".mp4\" extension:''), fs, [])
      else if \<not> endswith mp3_filepath ''.mp3'' \<or> \<not> isfile fs mp3_filepath
      then (Inl (IOError ''`mp3_filepath` must be an existing file with the \".mp3\" extension:''), fs, [])
      else (let args = split (CHR '' '')
                         (FFMPEG_PATH st @ '' -i '' @ mp4_filepath @ '' -ab 320k -y '' @ mp3_filepath)
            in case subprocess_run env args of
                 Inl err \<Rightarrow> (Inl err, fs, [args])
               | Inr process \<Rightarrow>
                   (let fs' = write_files fs (snd process)
                    in if fst process \<noteq> 0
                       then (Inl (Exception ''Could not convert mp4 to mp3.''), fs', [args])
                       else (Inr (), fs', [args]))))"

section \<open>main.py\<close>

record FileResponse =
  path :: string
  media_type :: "string option"
  background :: bool

text \<open>
  eyed3's tag. Assigning \<^verbatim>\<open>tag.title\<close>, \<^verbatim>\<open>tag.artist\<close> or \<^verbatim>\<open>tag.album\<close>
  sets the text frame, and removes it when the text is empty: the field then reads
  \<^verbatim>\<open>None\<close>. \<^verbatim>\<open>tag.images.set\<close> raises \<^verbatim>\<open>ValueError\<close> when it is given
  neither image data nor an image URL; otherwise it and \<^verbatim>\<open>tag.lyrics.set\<close> replace
  the frame with the same description (and language, for lyrics) or add the frame.
\<close>

definition set_text_frame :: "string \<Rightarrow> string option" where
  "set_text_frame txt = (if txt = [] then None else Some txt)"

fun upsert :: "('a \<Rightarrow> bool) \<Rightarrow> 'a \<Rightarrow> 'a list \<Rightarrow> 'a list" where
  "upsert same new [] = [new]"
| "upsert same new (x # xs) = (if same x then new # xs else x # upsert same new xs)"

definition images_set :: "Tag \<Rightarrow> ImageFrame \<Rightarrow> exn + Tag" where
  "images_set tag frame =
     (if img_data frame = [] then Inl ValueError
      else Inr (tag\<lparr>images := upsert (\<lambda>f. description f = description frame) frame
                                     (images tag)\<rparr>))"

definition lyrics_set :: "Tag \<Rightarrow> LyricsFrame \<Rightarrow> Tag" where
  "lyrics_set tag frame =
     tag\<lparr>lyrics := upsert (\<lambda>f. lyrics_description f = lyrics_description frame \<and> lang f = lang frame)
                        frame (lyrics tag)\<rparr>"

definition new_Tag :: Tag where
  "new_Tag = \<lparr>tag_title = None, tag_artist = None, tag_album = None, images = [], lyrics = []\<rparr>"

definition tag_save :: "media_env \<Rightarrow> Tag \<Rightarrow> files \<Rightarrow> string \<Rightarrow> exn + files" where
  "tag_save env tag fs filename =
     (case tag_save_error env of
        Some err \<Rightarrow> Inl err
      | None \<Rightarrow>
          (case fs filename of
             None \<Rightarrow> Inl (IOError filename)
           | Some f \<Rightarrow> Inr (fs(filename \<mapsto> f\<lparr>id3 := Some tag\<rparr>))))"

text \<open>\<^verbatim>\<open>os.remove\<close> and the closure \<^verbatim>\<open>remove_tmp_files\<close>.\<close>

definition os_remove :: "files \<Rightarrow> string \<Rightarrow> exn + files" where
  "os_remove fs p = (if isfile fs p then Inr (fs(p := None)) else Inl FileNotFoundError)"

definition remove_tmp_files :: "files \<Rightarrow> string \<Rightarrow> string \<Rightarrow> (exn + unit) \<times> files" where
  "remove_tmp_files fs tmp_mp4 tmp_mp3 =
     (case os_remove fs tmp_mp4 of
        Inl err \<Rightarrow> (Inl err, fs)
      | Inr fs1 \<Rightarrow>
          (case os_remove fs1 tmp_mp3 of
             Inl err \<Rightarrow> (Inl err, fs1)
           | Inr fs2 \<Rightarrow> (Inr (), fs2)))"

text \<open>The names of the two files \<^verbatim>\<open>tempfile.NamedTemporaryFile\<close> creates.\<close>

definition tmp_mp4_file :: "media_env \<Rightarrow> string" where
  "tmp_mp4_file env = tmp_mp4_stem env @ ''.mp4''"

definition tmp_mp3_file :: "media_env \<Rightarrow> string" where
  "tmp_mp3_file env = tmp_mp3_stem env @ ''.mp3''"

definition create_tmp_files :: "media_env \<Rightarrow> files \<Rightarrow> files" where
  "create_tmp_files env fs =
     (fs(tmp_mp4_file env \<mapsto> \<lparr>audio = [], id3 = None\<rparr>))
        (tmp_mp3_file env \<mapsto> \<lparr>audio = [], id3 = None\<rparr>)"

text \<open>
  The tagging step, from \<^verbatim>\<open>tag = Tag()\<close> to \<^verbatim>\<open>tag.save(filename=...)\<close>: the
  files after it, or the exception raised (by the cover-art request, by
  \<^verbatim>\<open>tag.images.set\<close> or by \<^verbatim>\<open>tag.save\<close>).
\<close>

definition tag_mp3 :: "media_env \<Rightarrow> TrackMetadata \<Rightarrow> files \<Rightarrow> string \<Rightarrow> exn + files" where
  "tag_mp3 env metadata fs filename =
     (let tag = new_Tag\<lparr>tag_title := set_text_frame (title metadata),
                        tag_artist := set_text_frame (artist metadata),
                        tag_album := set_text_frame (album metadata)\<rparr>
      in case httpx_get env (album_cover_url metadata) of
           Inl err \<Rightarrow> Inl err
         | Inr response \<Rightarrow>
             (case images_set tag
                     \<lparr>img_data = body response, type_ = FRONT_COVER,
                      mime_type = ''image/jpeg'',
                      description = album metadata @ '' Front Cover''\<rparr> of
                Inl err \<Rightarrow> Inl err
              | Inr tag1 \<Rightarrow>
                  tag_save env
                    (lyrics_set tag1 \<lparr>lyrics_text = [], lyrics_description = [], lang = ''   ''\<rparr>)
                    fs filename))"

text \<open>The body of the \<^verbatim>\<open>try\<close> block of \<^verbatim>\<open>download_video_as_mp3\<close>.\<close>

definition try_download ::
  "settings \<Rightarrow> media_env \<Rightarrow> files \<Rightarrow> string \<Rightarrow> TrackMetadata \<Rightarrow> (exn + FileResponse) \<times> files" where
  "try_download st env fs video_id metadata =
     (case download_youtube_video env fs video_id (tmp_mp4_file env) of
        (Inl err, fs1) \<Rightarrow> (Inl err, fs1)
      | (Inr u, fs1) \<Rightarrow>
          (case convert_mp4_to_mp3 st env fs1 (tmp_mp4_file env) (tmp_mp3_file env) of
             (Inl err, fs2, runs) \<Rightarrow> (Inl err, fs2)
           | (Inr u, fs2, runs) \<Rightarrow>
               (case tag_mp3 env metadata fs2 (tmp_mp3_file env) of
                  Inl err \<Rightarrow> (Inl err, fs2)
                | Inr fs3 \<Rightarrow>
                    (Inr \<lparr>path = tmp_mp3_file env, media_type = Some ''audio/mpeg'',
                          background = True\<rparr>, fs3))))"

text \<open>
  \<^verbatim>\<open>download_video_as_mp3\<close>: the response or the exception raised, and the files after
  the call. The background task of the response has not run yet when the call returns.
\<close>

definition download_video_as_mp3 ::
  "settings \<Rightarrow> lib \<Rightarrow> media_env \<Rightarrow> files \<Rightarrow> string \<Rightarrow> string \<Rightarrow> string \<Rightarrow> string \<Rightarrow> string \<Rightarrow>
   (exn + FileResponse) \<times> files" where
  "download_video_as_mp3 st l env fs video_id title_arg artist_arg album_arg album_cover_url_arg =
     (if MOCK_MODE st
      then (Inr \<lparr>path = ''mock.mp3'', media_type = None, background = False\<rparr>, fs)
      else (let metadata = \<lparr> title = url_decode l title_arg,
                              artist = url_decode l artist_arg,
                              album = url_decode l album_arg,
                              album_cover_url = url_decode l album_cover_url_arg \<rparr>
            in case try_download st env (create_tmp_files env fs) (url_decode l video_id) metadata of
                 (Inr resp, fs1) \<Rightarrow> (Inr resp, fs1)
               | (Inl err, fs1) \<Rightarrow>
                   (case remove_tmp_files fs1 (tmp_mp4_file env) (tmp_mp3_file env) of
                      (Inl err', fs2) \<Rightarrow> (Inl err', fs2)
                    | (Inr u, fs2) \<Rightarrow> (Inl err, fs2))))"

section \<open>Predicates and example inputs used in the statements\<close>

text \<open>An entry of the durable file as \<^verbatim>\<open>set_item\<close> writes it: \<^verbatim>\<open>[value, expires_at]\<close>.\<close>

fun is_cache_item :: "json \<Rightarrow> bool" where
  "is_cache_item (JArr [v, JInt e]) = True"
| "is_cache_item j = False"

text \<open>
  The audio-hosting collaborator reports that there is no resource for an identifier:
  \<^verbatim>\<open>VideoUnavailable\<close> is raised, or there is no audio stream.
\<close>

definition reports_no_resource :: "media_env \<Rightarrow> string \<Rightarrow> bool" where
  "reports_no_resource env video_id =
     (case get_audio_only env video_id of
        Inl (VideoUnavailable x) \<Rightarrow> True
      | Inr None \<Rightarrow> True
      | _ \<Rightarrow> False)"

text \<open>
  Caches with a lifetime of ten seconds, at the default path and at a path in a directory that
  does not exist, and disks.
\<close>

definition fresh_cache :: CacheStorage where
  "fresh_cache = init_CacheStorage ''cache.json'' None 10000000"

definition empty_disk :: disk where
  "empty_disk = Map.empty"

definition stored_disk :: disk where
  "stored_disk =
     [''cache.json'' \<mapsto>
        Doc (JObj [(''q1'', JArr [JArr [JStr ''a'', JStr ''b''], JInt 1700000010])])]"

definition binary_disk :: disk where
  "binary_disk = [''cache.json'' \<mapsto> NotUtf8]"

definition nested_cache :: CacheStorage where
  "nested_cache = init_CacheStorage ''cache.json'' (Some ''missing/cache.json'') 10000000"

definition no_directory_disk :: disk where
  "no_directory_disk = [''missing/cache.json'' \<mapsto> NoDirectory]"

definition two_key_disk :: disk where
  "two_key_disk =
     [''cache.json'' \<mapsto>
        Doc (JObj [(''k'', JInt 5), (''j'', JArr [JStr ''x'', JInt 1700000010])])]"

text \<open>Settings, library functions that leave their argument as it is, and collaborators.\<close>

definition example_settings :: settings where
  "example_settings =
     \<lparr> SPOTIFY_API_SEARCH_URL = ''https://api.spotify.com/v1/search'',
       FFMPEG_PATH = ''/usr/bin/ffmpeg'',
       MOCK_MODE = False,
       CACHE_PATH = ''cache.json'' \<rparr>"

definition example_lib :: lib where
  "example_lib =
     \<lparr> url_decode = (\<lambda>s. s),
       url_encode = (\<lambda>s. s),
       lower = (\<lambda>s. s),
       str_partial = (\<lambda>m. partial_title m @ '' '' @ partial_artist m),
       validate_track = (\<lambda>j. None),
       validate_search = (\<lambda>j. None) \<rparr>"

definition example_env :: "exn + string option \<Rightarrow> int \<Rightarrow> int \<Rightarrow> string \<Rightarrow> media_env" where
  "example_env found returncode cover_status cover =
     \<lparr> get_audio_only = (\<lambda>video_id. found),
       stream_download = (\<lambda>audio_stream. Inr ''mp4 audio''),
       subprocess_run = (\<lambda>args. Inr (returncode, [(last args, ''mp3 audio'')])),
       httpx_get = (\<lambda>u. Inr \<lparr>status_code = cover_status, body = cover\<rparr>),
       tag_save_error = None,
       tmp_mp4_stem = ''/tmp/tmpa1'',
       tmp_mp3_stem = ''/tmp/tmpb2'' \<rparr>"

definition example_files :: files where
  "example_files =
     [''/tmp/a.mp4'' \<mapsto> \<lparr>audio = ''mp4 audio'', id3 = None\<rparr>,
      ''/tmp/a b.mp4'' \<mapsto> \<lparr>audio = ''mp4 audio'', id3 = None\<rparr>,
      ''/tmp/b.mp3'' \<mapsto> \<lparr>audio = [], id3 = None\<rparr>]"

definition no_files :: files where
  "no_files = Map.empty"

definition example_spotify :: "int \<Rightarrow> payload \<Rightarrow> spotify" where
  "example_spotify status answer =
     \<lparr> get_spotify_api_token = (\<lambda>cache fs. (Inr (Some ''token''), cache, fs)),
       search_get = (\<lambda>u h. Inr \<lparr>status_code = status, body = answer\<rparr>) \<rparr>"

section \<open>Properties of the floats\<close>

text \<open>
  The rounding of \<open>true_divide\<close> never crosses an integer the quotient is on one side of,
  as long as the quotient is below \<open>2\<^sup>5\<^sup>3\<close> in magnitude; and a quotient by \<open>10\<^sup>6\<close> below
  \<open>2\<^sup>3\<^sup>4\<close> is rounded by less than \<open>10\<^sup>-\<^sup>6\<close>.
\<close>

lemma round_half_even_ge:
  assumes "of_int n \<le> x" shows "n \<le> round_half_even x"
proof -
  from assms have "n \<le> \<lfloor>x\<rfloor>" by (simp add: le_floor_iff)
  then show ?thesis by (auto simp: round_half_even_def Let_def)
qed

lemma round_half_even_le:
  assumes "x \<le> of_int n" shows "round_half_even x \<le> n"
proof (cases "x = of_int n")
  case True
  then show ?thesis by (simp add: round_half_even_def)
next
  case False
  with assms have "x < of_int n" by simp
  then have "\<lfloor>x\<rfloor> < n" by (simp add: floor_less_iff)
  then show ?thesis by (auto simp: round_half_even_def Let_def)
qed

lemma round_half_even_error: "\<bar>of_int (round_half_even x) - x\<bar> \<le> 1/2"
proof -
  have "of_int \<lfloor>x\<rfloor> \<le> x" "x < of_int \<lfloor>x\<rfloor> + 1" by linarith+
  then show ?thesis
    by (auto simp: round_half_even_def Let_def abs_le_iff split: if_splits)
qed

lemma round_half_even_unique:
  assumes "\<bar>x - of_int n\<bar> < 1/2" shows "round_half_even x = n"
proof (cases "of_int n \<le> x")
  case True
  have "\<lfloor>x\<rfloor> = n"
  proof (rule floor_unique)
    show "of_int n \<le> x" by fact
    show "x < of_int n + 1" using assms unfolding abs_less_iff by linarith
  qed
  moreover have "x - of_int n < 1/2" using assms unfolding abs_less_iff by linarith
  ultimately show ?thesis by (simp add: round_half_even_def Let_def)
next
  case False
  have f: "\<lfloor>x\<rfloor> = n - 1"
  proof (rule floor_unique)
    show "of_int (n - 1) \<le> x" using assms unfolding abs_less_iff by (simp; linarith?)
    show "x < of_int (n - 1) + 1" using False by simp
  qed
  have "1/2 < x - of_int (n - 1)" using assms unfolding abs_less_iff by (simp; linarith?)
  moreover have "\<not> x - of_int (n - 1) < 1/2" using calculation by linarith
  ultimately show ?thesis using f by (simp add: round_half_even_def Let_def)
qed

lemma ilog2_le: "0 < n \<Longrightarrow> 2 ^ ilog2 n \<le> n"
proof (induction n rule: ilog2.induct)
  case (1 n)
  show ?case
  proof (cases "n < 2")
    case True
    with "1.prems" show ?thesis by (simp add: ilog2.simps)
  next
    case False
    then have "0 < n div 2" by simp
    with "1.IH" False have "2 ^ ilog2 (n div 2) \<le> n div 2" by simp
    then have "2 * 2 ^ ilog2 (n div 2) \<le> n" by simp
    with False show ?thesis by (subst ilog2.simps) simp
  qed
qed

lemma ilog2_gt: "n < 2 ^ Suc (ilog2 n)"
proof (induction n rule: ilog2.induct)
  case (1 n)
  show ?case
  proof (cases "n < 2")
    case True
    then show ?thesis by (simp add: ilog2.simps)
  next
    case False
    with "1.IH" have "n div 2 < 2 ^ Suc (ilog2 (n div 2))" by simp
    then have "n < 2 * 2 ^ Suc (ilog2 (n div 2))" by simp
    with False show ?thesis by (subst ilog2.simps) simp
  qed
qed

lemma powi_times_power: "(2::real) powi a * 2 ^ n = 2 powi (a + int n)"
proof -
  have "(2::real) powi (a + int n) = 2 powi a * 2 powi int n"
    by (rule power_int_add) simp
  then show ?thesis by simp
qed

lemma float_exponent_le:
  assumes "0 < p" and "0 < q"
  shows "2 powi float_exponent p q * of_int q \<le> (of_int p :: real)"
proof -
  let ?lp = "ilog2 (nat p)" and ?lq = "ilog2 (nat q)"
  let ?d = "int ?lp - int ?lq"
  have p: "(2::real) ^ ?lp \<le> of_int p"
  proof -
    have "2 ^ ?lp \<le> nat p" using assms(1) by (intro ilog2_le) simp
    then have "real (2 ^ ?lp) \<le> real (nat p)" by (rule of_nat_mono)
    with assms(1) show ?thesis by simp
  qed
  have q: "of_int q < (2::real) ^ Suc ?lq"
  proof -
    have "real (nat q) < real (2 ^ Suc ?lq)" using ilog2_gt [of "nat q"] by (simp only: of_nat_less_iff)
    with assms(2) show ?thesis by simp
  qed
  have "2 powi (?d - 1) * of_int q \<le> (of_int p :: real)"
  proof -
    have "2 powi (?d - 1) * of_int q \<le> 2 powi (?d - 1) * (2::real) ^ Suc ?lq"
      using q by (intro mult_left_mono) simp_all
    also have "\<dots> = 2 powi (?d - 1 + int (Suc ?lq))"
      by (rule powi_times_power)
    also have "\<dots> = 2 powi int ?lp"
      by (rule arg_cong [where f = "\<lambda>k. 2 powi k"]) simp
    also have "\<dots> = 2 ^ ?lp" by (rule power_int_of_nat)
    finally show ?thesis using p by linarith
  qed
  then show ?thesis by (simp add: float_exponent_def Let_def)
qed

lemma float_exponent_gt:
  assumes "0 < p" and "0 < q"
  shows "(of_int p :: real) < 2 powi (float_exponent p q + 1) * of_int q"
proof -
  let ?lp = "ilog2 (nat p)" and ?lq = "ilog2 (nat q)"
  let ?d = "int ?lp - int ?lq"
  have p: "of_int p < (2::real) ^ Suc ?lp"
  proof -
    have "real (nat p) < real (2 ^ Suc ?lp)" using ilog2_gt [of "nat p"] by (simp only: of_nat_less_iff)
    with assms(1) show ?thesis by simp
  qed
  have q: "(2::real) ^ ?lq \<le> of_int q"
  proof -
    have "2 ^ ?lq \<le> nat q" using assms(2) by (intro ilog2_le) simp
    then have "real (2 ^ ?lq) \<le> real (nat q)" by (rule of_nat_mono)
    with assms(2) show ?thesis by simp
  qed
  have "(of_int p :: real) < 2 powi (?d + 1) * of_int q"
  proof -
    have "(2::real) ^ Suc ?lp = 2 powi (int (Suc ?lp))"
      by (rule power_int_of_nat [symmetric])
    also have "\<dots> = 2 powi ((?d + 1) + int ?lq)"
      by (rule arg_cong [where f = "\<lambda>k. 2 powi k"]) simp
    also have "\<dots> = 2 powi (?d + 1) * 2 ^ ?lq"
      by (rule powi_times_power [symmetric])
    also have "\<dots> \<le> 2 powi (?d + 1) * of_int q"
      using q by (intro mult_left_mono) simp_all
    finally show ?thesis using p by linarith
  qed
  then show ?thesis by (auto simp: float_exponent_def Let_def not_le)
qed

lemma float_exponent_less:
  assumes "0 < p" and "0 < q" and "(of_int p :: real) < 2 ^ n * of_int q"
  shows "float_exponent p q < int n"
proof -
  have "2 powi float_exponent p q * of_int q < (2::real) ^ n * of_int q"
    using float_exponent_le [OF assms(1,2)] assms(3) by linarith
  with assms(2) have "2 powi float_exponent p q < (2::real) ^ n" by simp
  then have "2 powi float_exponent p q < (2::real) powi int n" by simp
  then show ?thesis by (rule power_int_le_imp_less_exp [rotated]) simp_all
qed

lemma ulp_inverse:
  assumes "e \<le> 52"
  shows "(2::real) powi (e - 52) = 1 / 2 ^ nat (52 - e)"
proof -
  have "(2::real) powi (e - 52) = 2 powi (- int (nat (52 - e)))"
    using assms by (intro arg_cong [where f = "\<lambda>k. 2 powi k"]) simp
  also have "\<dots> = 1 / 2 powi int (nat (52 - e))" by (rule power_int_minus_divide)
  also have "\<dots> = 1 / 2 ^ nat (52 - e)" by (simp only: power_int_of_nat)
  finally show ?thesis .
qed

lemma true_divide_pos:
  assumes "0 < p"
  shows "true_divide p q =
           of_int (round_half_even (of_int p / (of_int q * 2 powi (float_exponent p q - 52))))
           * 2 powi (float_exponent p q - 52)"
  using assms by (simp add: true_divide_def Let_def)

lemma true_divide_minus: "true_divide (- p) q = - true_divide p q"
  by (cases "p = 0"; cases "p < 0") (simp_all add: true_divide_def Let_def)

lemma true_divide_pos_ge:
  assumes "0 < p" and "0 < q" and "(of_int p :: real) < 2 ^ 53 * of_int q" and "k * q \<le> p"
  shows "of_int k \<le> true_divide p q"
proof -
  let ?e = "float_exponent p q"
  let ?n = "nat (52 - ?e)"
  have e: "?e \<le> 52" using float_exponent_less [OF assms(1-3)] by simp
  have ulp: "(2::real) powi (?e - 52) = 1 / 2 ^ ?n" using e by (rule ulp_inverse)
  have "(of_int (k * q) :: real) \<le> of_int p" using assms(4) by (simp only: of_int_le_iff)
  then have "of_int k * of_int q \<le> (of_int p :: real)" by simp
  then have "of_int k \<le> (of_int p :: real) / of_int q"
    using assms(2) by (simp add: pos_le_divide_eq)
  then have "of_int k * 2 ^ ?n \<le> (of_int p :: real) / of_int q * 2 ^ ?n"
    by (intro mult_right_mono) simp_all
  then have "of_int (k * 2 ^ ?n) \<le> (of_int p :: real) / (of_int q * 2 powi (?e - 52))"
    by (simp add: ulp)
  then have "k * 2 ^ ?n \<le> round_half_even (of_int p / (of_int q * 2 powi (?e - 52)))"
    by (rule round_half_even_ge)
  then have "(of_int (k * 2 ^ ?n) :: real)
               \<le> of_int (round_half_even (of_int p / (of_int q * 2 powi (?e - 52))))"
    by (simp only: of_int_le_iff)
  then have "(of_int (k * 2 ^ ?n) :: real) / 2 ^ ?n
               \<le> of_int (round_half_even (of_int p / (of_int q * 2 powi (?e - 52)))) / 2 ^ ?n"
    by (intro divide_right_mono) simp_all
  then show ?thesis
    by (simp add: true_divide_pos [OF assms(1)] ulp)
qed

lemma true_divide_pos_le:
  assumes "0 < p" and "0 < q" and "(of_int p :: real) < 2 ^ 53 * of_int q" and "p \<le> k * q"
  shows "true_divide p q \<le> of_int k"
proof -
  let ?e = "float_exponent p q"
  let ?n = "nat (52 - ?e)"
  have e: "?e \<le> 52" using float_exponent_less [OF assms(1-3)] by simp
  have ulp: "(2::real) powi (?e - 52) = 1 / 2 ^ ?n" using e by (rule ulp_inverse)
  have "(of_int p :: real) \<le> of_int (k * q)" using assms(4) by (simp only: of_int_le_iff)
  then have "(of_int p :: real) \<le> of_int k * of_int q" by simp
  then have "(of_int p :: real) / of_int q \<le> of_int k"
    using assms(2) by (simp add: pos_divide_le_eq)
  then have "(of_int p :: real) / of_int q * 2 ^ ?n \<le> of_int k * 2 ^ ?n"
    by (intro mult_right_mono) simp_all
  then have "(of_int p :: real) / (of_int q * 2 powi (?e - 52)) \<le> of_int (k * 2 ^ ?n)"
    by (simp add: ulp)
  then have "round_half_even (of_int p / (of_int q * 2 powi (?e - 52))) \<le> k * 2 ^ ?n"
    by (rule round_half_even_le)
  then have "(of_int (round_half_even (of_int p / (of_int q * 2 powi (?e - 52)))) :: real)
               \<le> of_int (k * 2 ^ ?n)"
    by (simp only: of_int_le_iff)
  then have "(of_int (round_half_even (of_int p / (of_int q * 2 powi (?e - 52)))) :: real) / 2 ^ ?n
               \<le> of_int (k * 2 ^ ?n) / 2 ^ ?n"
    by (intro divide_right_mono) simp_all
  then show ?thesis
    by (simp add: true_divide_pos [OF assms(1)] ulp)
qed

lemma true_divide_pos_error:
  assumes "0 < p" and "0 < q"
  shows "\<bar>true_divide p q - of_int p / of_int q\<bar> \<le> 2 powi (float_exponent p q - 52) / 2"
proof -
  let ?u = "(2::real) powi (float_exponent p q - 52)"
  let ?m = "of_int p / (of_int q * ?u)"
  have u: "0 < ?u" by simp
  have "\<bar>of_int (round_half_even ?m) - ?m\<bar> \<le> 1 / 2" by (rule round_half_even_error)
  then have "\<bar>of_int (round_half_even ?m) - ?m\<bar> * ?u \<le> 1 / 2 * ?u"
    using u by (intro mult_right_mono) simp_all
  then have "\<bar>(of_int (round_half_even ?m) - ?m) * ?u\<bar> \<le> ?u / 2"
    using u by (simp add: abs_mult)
  moreover have "(of_int (round_half_even ?m) - ?m) * ?u
                   = true_divide p q - of_int p / of_int q"
    using u assms(2) by (simp add: true_divide_pos [OF assms(1)] left_diff_distrib)
  ultimately show ?thesis by simp
qed

lemma true_divide_ge_int:
  assumes "0 < q" and "\<bar>p\<bar> < 2 ^ 53 * q" and "k * q \<le> p"
  shows "of_int k \<le> true_divide p q"
proof -
  have bound: "(of_int \<bar>p\<bar> :: real) < 2 ^ 53 * of_int q"
  proof -
    have "(of_int \<bar>p\<bar> :: real) < of_int (2 ^ 53 * q)" using assms(2) by (simp only: of_int_less_iff)
    then show ?thesis by simp
  qed
  consider "0 < p" | "p = 0" | "p < 0" by linarith
  then show ?thesis
  proof cases
    case 1
    with bound assms show ?thesis by (intro true_divide_pos_ge) simp_all
  next
    case 2
    with assms have "k * q \<le> 0" by simp
    with assms(1) have "k \<le> 0" by (simp add: mult_le_0_iff)
    with 2 show ?thesis by (simp add: true_divide_def)
  next
    case 3
    have "- p \<le> (- k) * q" using assms(3) by simp
    with 3 bound assms(1) have "true_divide (- p) q \<le> of_int (- k)"
      by (intro true_divide_pos_le) simp_all
    then show ?thesis by (simp add: true_divide_minus)
  qed
qed

lemma true_divide_le_int:
  assumes "0 < q" and "\<bar>p\<bar> < 2 ^ 53 * q" and "p \<le> k * q"
  shows "true_divide p q \<le> of_int k"
proof -
  have "(- k) * q \<le> - p" using assms(3) by simp
  with assms(1,2) have "of_int (- k) \<le> true_divide (- p) q"
    by (intro true_divide_ge_int) simp_all
  then show ?thesis by (simp add: true_divide_minus)
qed

lemma true_divide_near:
  assumes "0 < p" and "p < 2 ^ 34 * 1000000"
  shows "\<bar>true_divide p 1000000 - of_int p / 1000000\<bar> < 1 / 1000000"
proof -
  have "(of_int p :: real) < of_int (2 ^ 34 * 1000000)" using assms(2) by (simp only: of_int_less_iff)
  then have "(of_int p :: real) < 2 ^ 34 * of_int 1000000" by simp
  with assms(1) have "float_exponent p 1000000 < int 34"
    by (intro float_exponent_less) simp_all
  then have "float_exponent p 1000000 - 52 \<le> - 19" by simp
  then have "(2::real) powi (float_exponent p 1000000 - 52) \<le> 2 powi (- 19)"
    by (intro power_int_increasing) simp_all
  also have "(2::real) powi (- 19) = 1 / 524288" by (simp add: power_int_minus_divide)
  finally have "(2::real) powi (float_exponent p 1000000 - 52) / 2 < 1 / 1000000" by simp
  with true_divide_pos_error [OF assms(1), of 1000000] show ?thesis by simp
qed

lemma true_divide_gt_int:
  assumes "0 < p" and "p < 2 ^ 34 * 1000000" and "k * 1000000 < p"
  shows "of_int k < true_divide p 1000000"
proof -
  have "k * 1000000 + 1 \<le> p" using assms(3) by simp
  then have "(of_int (k * 1000000 + 1) :: real) \<le> of_int p" by (simp only: of_int_le_iff)
  then have "of_int k + 1 / 1000000 \<le> (of_int p :: real) / 1000000" by simp
  with true_divide_near [OF assms(1,2)] show ?thesis
    unfolding abs_less_iff by linarith
qed

lemma int_of_float_true_divide_le:
  assumes "0 \<le> p" and "p < 2 ^ 34 * 1000000"
  shows "int_of_float (true_divide p 1000000) * 1000000 \<le> p"
proof (cases "p = 0")
  case True
  then show ?thesis by (simp add: true_divide_def int_of_float_def)
next
  case False
  with assms(1) have pos: "0 < p" by simp
  let ?t = "true_divide p 1000000"
  have "(0::real) \<le> of_int 0" by simp
  also have "of_int 0 \<le> ?t" using pos assms(2) by (intro true_divide_ge_int) simp_all
  finally have t: "0 \<le> ?t" .
  show ?thesis
  proof (rule ccontr)
    assume "\<not> int_of_float ?t * 1000000 \<le> p"
    then have "p + 1 \<le> \<lfloor>?t\<rfloor> * 1000000" using t by (simp add: int_of_float_def)
    then have "(of_int (p + 1) :: real) \<le> of_int (\<lfloor>?t\<rfloor> * 1000000)" by (simp only: of_int_le_iff)
    then have "(of_int p :: real) / 1000000 + 1 / 1000000 \<le> of_int \<lfloor>?t\<rfloor>" by simp
    moreover have "of_int \<lfloor>?t\<rfloor> \<le> ?t" by simp
    ultimately show False using true_divide_near [OF pos assms(2)]
      unfolding abs_less_iff by linarith
  qed
qed

lemma true_divide_whole:
  assumes "\<bar>k\<bar> < 2 ^ 53"
  shows "true_divide (k * 1000000) 1000000 = of_int k"
proof -
  have "\<bar>k * 1000000\<bar> < 2 ^ 53 * 1000000" using assms by (simp add: abs_mult)
  then have "true_divide (k * 1000000) 1000000 \<le> of_int k" "of_int k \<le> true_divide (k * 1000000) 1000000"
    by (intro true_divide_le_int true_divide_ge_int; simp)+
  then show ?thesis by simp
qed

section \<open>Properties of the cache\<close>

lemma microseconds_datetime_of:
  "datetime_min \<le> us \<Longrightarrow> us \<le> datetime_max \<Longrightarrow> microseconds (datetime_of us) = us"
  by (simp add: datetime_of_inverse)

lemma microseconds_range:
  "datetime_min \<le> microseconds t" "microseconds t \<le> datetime_max"
  using microseconds [of t] by simp_all

lemma microseconds_abs: "\<bar>microseconds t\<bar> < 2 ^ 53 * 1000000"
  using microseconds_range [of t] by (simp add: datetime_min_def datetime_max_def abs_less_iff)

lemma timestamp_le: "microseconds t \<le> k * 1000000 \<Longrightarrow> timestamp t \<le> of_int k"
  unfolding timestamp_def by (intro true_divide_le_int microseconds_abs) simp_all

lemma timestamp_ge: "k * 1000000 \<le> microseconds t \<Longrightarrow> of_int k \<le> timestamp t"
  unfolding timestamp_def by (intro true_divide_ge_int microseconds_abs) simp_all

lemma timestamp_above:
  assumes "0 < microseconds t" and "microseconds t < 17179869184000000"
    and "k * 1000000 < microseconds t"
  shows "of_int k < timestamp t"
  unfolding timestamp_def using assms by (intro true_divide_gt_int) simp_all

lemma timestamp_whole:
  assumes "microseconds t = k * 1000000"
  shows "timestamp t = of_int k"
  using timestamp_le [of t k] timestamp_ge [of k t] assms by simp

lemma expiry_not_after:
  assumes "microseconds t < 17179869184000000"
  shows "int_of_float (timestamp t) * 1000000 \<le> max (microseconds t) 0"
proof (cases "0 \<le> microseconds t")
  case True
  with assms have "int_of_float (true_divide (microseconds t) 1000000) * 1000000 \<le> microseconds t"
    by (intro int_of_float_true_divide_le) simp_all
  with True show ?thesis by (simp add: timestamp_def)
next
  case False
  then have "microseconds t \<le> 0 * 1000000" by simp
  then have "timestamp t \<le> of_int 0" by (rule timestamp_le)
  then have "int_of_float (timestamp t) \<le> 0"
    by (auto simp: int_of_float_def ceiling_le_iff)
  with False show ?thesis by simp
qed

lemma has_expired_item_json:
  "has_expired now (item_json (v, e)) = Inr (of_int e < timestamp now)"
  by (simp add: item_json_def has_expired_def)

lemma not_expired:
  "microseconds now \<le> e * 1000000 \<Longrightarrow> has_expired now (JArr [v, JInt e]) = Inr False"
  using timestamp_le [of now e] by (simp add: has_expired_def)

lemma expired:
  assumes "0 < microseconds now" and "microseconds now < 17179869184000000"
    and "e * 1000000 < microseconds now"
  shows "has_expired now (JArr [v, JInt e]) = Inr True"
  using timestamp_above [OF assms] by (simp add: has_expired_def)

lemma create_item_whole:
  assumes "microseconds now + item_lifetime self = k * 1000000"
    and "datetime_min \<le> k * 1000000" and "k * 1000000 \<le> datetime_max"
  shows "create_item self now v = Inr (v, k)"
proof -
  have "timestamp (datetime_of (k * 1000000)) = of_int k"
    using assms(2,3) by (intro timestamp_whole) (simp add: microseconds_datetime_of)
  with assms show ?thesis
    by (simp add: create_item_def add_timedelta_def int_of_float_def)
qed

lemma create_item_in_range:
  assumes "datetime_min \<le> microseconds now + item_lifetime self"
    and "microseconds now + item_lifetime self \<le> datetime_max"
  shows "create_item self now v
           = Inr (v, int_of_float (true_divide (microseconds now + item_lifetime self) 1000000))"
  using assms
  by (simp add: create_item_def add_timedelta_def timestamp_def microseconds_datetime_of)

lemma create_item_cases:
  assumes "create_item self now v = Inr item"
  shows "datetime_min \<le> microseconds now + item_lifetime self
       \<and> microseconds now + item_lifetime self \<le> datetime_max
       \<and> item = (v, int_of_float (true_divide (microseconds now + item_lifetime self) 1000000))"
  using assms
  by (auto simp: create_item_def add_timedelta_def timestamp_def microseconds_datetime_of Let_def
      split: if_splits)

lemma map_of_dict_set: "map_of (dict_set kvs k v) k = Some v"
  by (induction kvs) auto

lemma set_item_recreates:
  assumes "fs (cache_path self) = None \<or> fs (cache_path self) = Some NotJson"
    and "create_item self now v = Inr item"
  shows "set_item self fs now k v =
           (Inr (), self\<lparr>mem_cache := (mem_cache self)(k \<mapsto> item)\<rparr>,
            fs(cache_path self \<mapsto> Doc (JObj [(k, item_json item)])))"
  using assms by (auto simp: set_item_def Let_def)

lemma set_item_stores:
  assumes "set_item self fs now k v = (Inr (), self', fs')"
  shows "\<exists>item. create_item self now v = Inr item
           \<and> mem_cache self' k = Some item
           \<and> cache_path self' = cache_path self
           \<and> load_entry (fs' (cache_path self)) k = Inr (item_json item)"
  using assms
  by (auto simp: set_item_def Let_def item_json_def map_of_dict_set
      split: sum.splits option.splits content.splits json.splits)

lemma load_entry_unreadable:
  "m = None \<or> m = Some NotJson \<Longrightarrow> load_entry m key = Inr JNull"
  by auto

lemma get_item_no_live_entry:
  assumes "load_entry (fs (cache_path self)) key = Inr JNull"
    and "mem_cache self key = None"
  shows "get_item self fs tm tf key = Inr (Json JNull)"
  using assms by (simp add: get_item_def)

lemma get_item_returns:
  assumes "load_entry (fs (cache_path self)) key = Inr item"
    and "item = JNull \<or> is_cache_item item"
  shows "\<exists>r. get_item self fs tm tf key = Inr r"
proof -
  have from_file: "\<exists>r. (if item = JNull then Inr (Json JNull)
             else (case has_expired tf item of
                     Inl err \<Rightarrow> Inl err
                   | Inr True \<Rightarrow> Inr (Json JNull)
                   | Inr False \<Rightarrow>
                       (case subscript item 0 of
                          Inl err \<Rightarrow> Inl err
                        | Inr v \<Rightarrow> Inr (Json v)))) = (Inr r :: exn + pyval)"
    using assms(2)
    by (induction item rule: is_cache_item.induct)
       (auto simp: has_expired_def split: bool.splits)
  show ?thesis
  proof (cases "mem_cache self key")
    case None
    with from_file assms(1) show ?thesis by (simp add: get_item_def)
  next
    case (Some it)
    show ?thesis
    proof (cases "of_int (snd it) < timestamp tm")
      case True
      with Some from_file assms(1) show ?thesis
        by (simp add: get_item_def has_expired_def item_json_def)
    next
      case False
      with Some show ?thesis
        by (simp add: get_item_def has_expired_def item_json_def)
    qed
  qed
qed

lemma fresh_cache_fields:
  "cache_path fresh_cache = ''cache.json''" "mem_cache fresh_cache = Map.empty"
  "item_lifetime fresh_cache = 10000000"
  by (simp_all add: fresh_cache_def init_CacheStorage_def)

text \<open>
  The float \<^verbatim>\<open>17179869184.000001\<close>, one microsecond after \<open>2\<^sup>3\<^sup>4\<close> seconds, is
  \<^verbatim>\<open>17179869184.0\<close>: binary64 numbers are \<open>2\<^sup>-\<^sup>1\<^sup>8\<close> apart there.
\<close>

lemma ilog2_late: "ilog2 17179869184000001 = 53"
  by (simp add: ilog2.simps)

lemma ilog2_million: "ilog2 1000000 = 19"
  by (simp add: ilog2.simps)

lemma float_exponent_late: "float_exponent 17179869184000001 1000000 = 34"
  by (simp add: float_exponent_def ilog2_late ilog2_million)

lemma ulp_late: "(2::real) powi (34 - 52) = 1 / 262144"
  by (simp add: power_int_minus_divide)

lemma round_late:
  "round_half_even (17179869184000001 * 262144 / 1000000) = 4503599627370496"
  by (rule round_half_even_unique) simp

lemma true_divide_late: "true_divide 17179869184000001 1000000 = 17179869184"
proof -
  have "true_divide 17179869184000001 1000000
          = of_int (round_half_even (17179869184000001 / (1000000 * (1 / 262144)))) * (1 / 262144)"
    by (simp only: true_divide_pos float_exponent_late ulp_late of_int_numeral)
  also have "17179869184000001 / (1000000 * (1 / 262144)) = (17179869184000001 * 262144 / 1000000 :: real)"
    by simp
  also have "of_int (round_half_even (17179869184000001 * 262144 / 1000000)) * (1 / 262144)
               = (17179869184 :: real)"
    by (simp only: round_late)
  finally show ?thesis .
qed

text \<open>
  C1. Claimed: \<^verbatim>\<open>set_item(k, v)\<close> followed by \<^verbatim>\<open>get_item(k)\<close> in the same process
  returns \<open>v\<close> itself, not a wrapper, until the lifetime has elapsed. The code does not:
  the branch of \<^verbatim>\<open>get_item\<close> that serves \<^verbatim>\<open>mem_cache\<close> returns \<^verbatim>\<open>item\<close>,
  the tuple \<^verbatim>\<open>(value, expires_at)\<close>, where the branch that serves the file returns
  \<^verbatim>\<open>item[0]\<close>. With a lifetime of ten seconds, \<^verbatim>\<open>set_item("q1", ["a", "b"])\<close>
  and a \<^verbatim>\<open>get_item("q1")\<close> one microsecond later give the tuple.
\<close>

theorem get_item_after_set_item_returns_tuple:
  "get_item
     (fst (snd (set_item fresh_cache empty_disk (datetime_of 1700000000000000) ''q1''
                  (JArr [JStr ''a'', JStr ''b'']))))
     (snd (snd (set_item fresh_cache empty_disk (datetime_of 1700000000000000) ''q1''
                  (JArr [JStr ''a'', JStr ''b'']))))
     (datetime_of 1700000000000001) (datetime_of 1700000000000001) ''q1''
   = Inr (Tuple (JArr [JStr ''a'', JStr ''b'']) 1700000010)"
proof -
  let ?v = "JArr [JStr ''a'', JStr ''b'']"
  have c: "create_item fresh_cache (datetime_of 1700000000000000) ?v = Inr (?v, 1700000010)"
    by (rule create_item_whole)
       (simp_all add: microseconds_datetime_of datetime_min_def datetime_max_def
          fresh_cache_fields)
  have e: "empty_disk (cache_path fresh_cache) = None \<or>
           empty_disk (cache_path fresh_cache) = Some NotJson"
    by (simp add: empty_disk_def)
  have n: "has_expired (datetime_of 1700000000000001) (JArr [?v, JInt 1700000010]) = Inr False"
    by (rule not_expired)
       (simp add: microseconds_datetime_of datetime_min_def datetime_max_def)
  show ?thesis
    by (simp add: set_item_recreates [where fs = empty_disk and self = fresh_cache, OF e c]
        get_item_def item_json_def n)
qed

text \<open>
  C2. Claimed: for every content of the durable file, also a JSON object whose entry for
  the key is not a \<^verbatim>\<open>[value, expires_at]\<close> pair, \<^verbatim>\<open>get_item\<close> returns and never
  raises, and a following \<^verbatim>\<open>set_item(k, v)\<close> succeeds and leaves the file with the
  single key \<open>k\<close>. On the file \<^verbatim>\<open>{"k": 5, "j": ["x", 1700000010]}\<close> the call
  \<^verbatim>\<open>get_item("k")\<close> raises \<^verbatim>\<open>TypeError\<close> (\<^verbatim>\<open>5[1]\<close>; only
  \<^verbatim>\<open>FileNotFoundError\<close> and \<^verbatim>\<open>JSONDecodeError\<close> are caught), and
  \<^verbatim>\<open>set_item("k", "v")\<close> keeps the key \<^verbatim>\<open>"j"\<close>. On a file that is not valid UTF-8
  both calls raise \<^verbatim>\<open>UnicodeDecodeError\<close> and the file stays as it is. When the file
  is absent because its directory is, \<^verbatim>\<open>set_item\<close> raises
  \<^verbatim>\<open>FileNotFoundError\<close>. At the last microsecond of the year 9999,
  \<^verbatim>\<open>set_item\<close> raises \<^verbatim>\<open>OverflowError\<close>.
\<close>

theorem malformed_entry_counterexample:
  "get_item fresh_cache two_key_disk (datetime_of 1700000000000000)
     (datetime_of 1700000000000000) ''k'' = Inl TypeError
   \<and> snd (snd (set_item fresh_cache two_key_disk (datetime_of 1700000000000000) ''k''
                 (JStr ''v''))) ''cache.json''
       = Some (Doc (JObj [(''k'', JArr [JStr ''v'', JInt 1700000010]),
                          (''j'', JArr [JStr ''x'', JInt 1700000010])]))
   \<and> get_item fresh_cache binary_disk (datetime_of 1700000000000000)
       (datetime_of 1700000000000000) ''k'' = Inl UnicodeDecodeError
   \<and> set_item fresh_cache binary_disk (datetime_of 1700000000000000) ''k'' (JStr ''v'')
       = (Inl UnicodeDecodeError, fresh_cache, binary_disk)
   \<and> set_item nested_cache no_directory_disk (datetime_of 1700000000000000) ''k''
       (JStr ''v'')
       = (Inl FileNotFoundError, nested_cache, no_directory_disk)
   \<and> set_item fresh_cache empty_disk (datetime_of 253402300799999999) ''k'' (JStr ''v'')
       = (Inl OverflowError, fresh_cache, empty_disk)"
proof -
  have n: "cache_path nested_cache = ''missing/cache.json''"
    "item_lifetime nested_cache = 10000000"
    by (simp_all add: nested_cache_def init_CacheStorage_def)
  have d: "create_item nested_cache (datetime_of 1700000000000000) (JStr ''v'')
             = Inr (JStr ''v'', 1700000010)"
    by (rule create_item_whole)
       (simp_all add: microseconds_datetime_of datetime_min_def datetime_max_def n)
  have c: "create_item fresh_cache (datetime_of 1700000000000000) (JStr ''v'')
             = Inr (JStr ''v'', 1700000010)"
    by (rule create_item_whole)
       (simp_all add: microseconds_datetime_of datetime_min_def datetime_max_def
          fresh_cache_fields)
  have o: "create_item fresh_cache (datetime_of 253402300799999999) (JStr ''v'')
             = Inl OverflowError"
    by (simp add: create_item_def add_timedelta_def microseconds_datetime_of datetime_min_def
        datetime_max_def fresh_cache_fields)
  show ?thesis
    by (simp add: set_item_def get_item_def c d o n fresh_cache_fields two_key_disk_def
        binary_disk_def no_directory_disk_def empty_disk_def has_expired_def item_json_def)
qed

text \<open>
  C2, amended. If the durable file is absent (in a directory that exists) or is text that is
  not JSON, or is a JSON object whose entry for the requested key is missing, null or a
  \<^verbatim>\<open>[value, expires_at]\<close> pair with an integer \<^verbatim>\<open>expires_at\<close>, then
  \<^verbatim>\<open>get_item(key)\<close> returns a result and does not raise. If the file is absent (in a
  directory that exists) or is text that is not JSON, \<^verbatim>\<open>get_item(key)\<close> reports absent
  when the volatile tier has no entry for the key, and \<^verbatim>\<open>set_item(k, v)\<close>, called when
  the clock reading plus the lifetime is a date of the years 1 to 9999, succeeds and leaves
  the file containing exactly the single key \<open>k\<close>.
\<close>

theorem cache_tolerates_missing_or_non_json_file:
  assumes "fs (cache_path self) = None \<or> fs (cache_path self) = Some NotJson
           \<or> (\<exists>kvs. fs (cache_path self) = Some (Doc (JObj kvs))
                \<and> (case map_of kvs key of
                      None \<Rightarrow> True
                    | Some j \<Rightarrow> j = JNull \<or> is_cache_item j))"
  shows "(\<exists>r. get_item self fs tm tf key = Inr r)
       \<and> (fs (cache_path self) = None \<or> fs (cache_path self) = Some NotJson \<longrightarrow>
            (mem_cache self key = None \<longrightarrow> get_item self fs tm tf key = Inr (Json JNull))
          \<and> (datetime_min \<le> microseconds now + item_lifetime self \<longrightarrow>
             microseconds now + item_lifetime self \<le> datetime_max \<longrightarrow>
               (\<exists>e. set_item self fs now k v =
                      (Inr (), self\<lparr>mem_cache := (mem_cache self)(k \<mapsto> (v, e))\<rparr>,
                       fs(cache_path self \<mapsto> Doc (JObj [(k, JArr [v, JInt e])]))))))"
proof (intro conjI impI)
  from assms obtain item where "load_entry (fs (cache_path self)) key = Inr item"
    and "item = JNull \<or> is_cache_item item"
    by (auto split: option.splits)
  then show "\<exists>r. get_item self fs tm tf key = Inr r"
    by (rule get_item_returns)
next
  assume "fs (cache_path self) = None \<or> fs (cache_path self) = Some NotJson"
    and "mem_cache self key = None"
  then show "get_item self fs tm tf key = Inr (Json JNull)"
    by (simp add: get_item_no_live_entry load_entry_unreadable)
next
  assume u: "fs (cache_path self) = None \<or> fs (cache_path self) = Some NotJson"
    and "datetime_min \<le> microseconds now + item_lifetime self"
    and "microseconds now + item_lifetime self \<le> datetime_max"
  then have "create_item self now v
               = Inr (v, int_of_float (true_divide (microseconds now + item_lifetime self) 1000000))"
    by (intro create_item_in_range)
  from set_item_recreates [where fs = fs and self = self, OF u this]
  show "\<exists>e. set_item self fs now k v =
               (Inr (), self\<lparr>mem_cache := (mem_cache self)(k \<mapsto> (v, e))\<rparr>,
                fs(cache_path self \<mapsto> Doc (JObj [(k, JArr [v, JInt e])])))"
    by (auto simp: item_json_def)
qed

theorem cache_tolerates_missing_or_non_json_file_witness:
  "empty_disk (cache_path fresh_cache) = None
   \<and> mem_cache fresh_cache ''k'' = None
   \<and> datetime_min \<le> microseconds (datetime_of 1700000000000000) + item_lifetime fresh_cache
   \<and> microseconds (datetime_of 1700000000000000) + item_lifetime fresh_cache \<le> datetime_max
   \<and> get_item fresh_cache empty_disk (datetime_of 1700000000000000)
       (datetime_of 1700000000000000) ''k'' = Inr (Json JNull)
   \<and> fst (set_item fresh_cache empty_disk (datetime_of 1700000000000000) ''k'' (JStr ''v''))
       = Inr ()
   \<and> snd (snd (set_item fresh_cache empty_disk (datetime_of 1700000000000000) ''k''
                 (JStr ''v'')))
       = [''cache.json'' \<mapsto> Doc (JObj [(''k'', JArr [JStr ''v'', JInt 1700000010])])]"
proof -
  have h: "empty_disk (cache_path fresh_cache) = None"
    by (simp add: empty_disk_def)
  have m: "mem_cache fresh_cache ''k'' = None"
    by (simp add: fresh_cache_fields)
  have r: "datetime_min \<le> microseconds (datetime_of 1700000000000000) + item_lifetime fresh_cache"
    "microseconds (datetime_of 1700000000000000) + item_lifetime fresh_cache \<le> datetime_max"
    by (simp_all add: microseconds_datetime_of datetime_min_def datetime_max_def
        fresh_cache_fields)
  have c: "create_item fresh_cache (datetime_of 1700000000000000) (JStr ''v'')
             = Inr (JStr ''v'', 1700000010)"
    by (rule create_item_whole)
       (simp_all add: microseconds_datetime_of datetime_min_def datetime_max_def
          fresh_cache_fields)
  have s: "set_item fresh_cache empty_disk (datetime_of 1700000000000000) ''k'' (JStr ''v'')
             = (Inr (), fresh_cache\<lparr>mem_cache := (mem_cache fresh_cache)(''k'' \<mapsto> (JStr ''v'', 1700000010))\<rparr>,
                empty_disk(cache_path fresh_cache \<mapsto>
                  Doc (JObj [(''k'', item_json (JStr ''v'', 1700000010))])))"
    by (rule set_item_recreates [where fs = empty_disk and self = fresh_cache])
       (simp_all add: h c)
  have sa: "fst (set_item fresh_cache empty_disk (datetime_of 1700000000000000) ''k''
                   (JStr ''v'')) = Inr ()"
    by (simp only: s fst_conv)
  have sb: "snd (snd (set_item fresh_cache empty_disk (datetime_of 1700000000000000) ''k''
                        (JStr ''v'')))
              = [''cache.json'' \<mapsto> Doc (JObj [(''k'', JArr [JStr ''v'', JInt 1700000010])])]"
    by (simp only: s snd_conv) (simp add: item_json_def fresh_cache_fields empty_disk_def)
  from cache_tolerates_missing_or_non_json_file
         [where fs = empty_disk and self = fresh_cache and key = "''k''"
            and tm = "datetime_of 1700000000000000" and tf = "datetime_of 1700000000000000"
            and now = "datetime_of 1700000000000000" and k = "''k''" and v = "JStr ''v''"]
       h m r sa sb
  show ?thesis
    by simp
qed

text \<open>
  C4. Claimed: an entry is valid exactly when \<^verbatim>\<open>now_utc_seconds <= expires_at\<close>, so
  that once \<^verbatim>\<open>item_lifetime\<close> has elapsed since the \<^verbatim>\<open>set_item(k, _)\<close>,
  \<^verbatim>\<open>get_item(k)\<close> reports absent. The clock is compared as a float: with a lifetime of
  ten seconds, an entry set ten seconds before \<open>2\<^sup>3\<^sup>4\<close> seconds after the epoch (in the
  year 2514) expires at \<^verbatim>\<open>17179869184\<close>; one microsecond after that instant the
  lifetime has elapsed, the timestamp is the float \<^verbatim>\<open>17179869184.0\<close>, which is not
  greater, and \<^verbatim>\<open>get_item\<close> returns the entry.
\<close>

theorem late_clock_counterexample:
  "17179869174000000 + item_lifetime fresh_cache < (17179869184000001 :: int)
   \<and> fst (set_item fresh_cache empty_disk (datetime_of 17179869174000000) ''q1'' (JStr ''v''))
       = Inr ()
   \<and> has_expired (datetime_of 17179869184000001) (item_json (JStr ''v'', 17179869184))
       = Inr False
   \<and> get_item
       (fst (snd (set_item fresh_cache empty_disk (datetime_of 17179869174000000) ''q1''
                    (JStr ''v''))))
       (snd (snd (set_item fresh_cache empty_disk (datetime_of 17179869174000000) ''q1''
                    (JStr ''v''))))
       (datetime_of 17179869184000001) (datetime_of 17179869184000001) ''q1''
     = Inr (Tuple (JStr ''v'') 17179869184)"
proof -
  have c: "create_item fresh_cache (datetime_of 17179869174000000) (JStr ''v'')
             = Inr (JStr ''v'', 17179869184)"
    by (rule create_item_whole)
       (simp_all add: microseconds_datetime_of datetime_min_def datetime_max_def
          fresh_cache_fields)
  have e: "empty_disk (cache_path fresh_cache) = None \<or>
           empty_disk (cache_path fresh_cache) = Some NotJson"
    by (simp add: empty_disk_def)
  have t: "timestamp (datetime_of 17179869184000001) = 17179869184"
    by (simp add: timestamp_def microseconds_datetime_of datetime_min_def datetime_max_def
        true_divide_late)
  have n: "has_expired (datetime_of 17179869184000001) (item_json (JStr ''v'', 17179869184))
             = Inr False"
    by (simp add: has_expired_item_json t)
  show ?thesis
    using n
    by (simp add: set_item_recreates [where fs = empty_disk and self = fresh_cache, OF e c]
        get_item_def fresh_cache_fields)
qed

text \<open>
  C4, amended. An entry with expiration timestamp \<^verbatim>\<open>expires_at\<close> is valid exactly when
  the float timestamp of the clock reading is at most \<^verbatim>\<open>expires_at\<close>; for a clock
  after the Unix epoch and before \<open>2\<^sup>3\<^sup>4\<close> seconds after it (in the year 2514), that is
  exactly when the reading is at most \<^verbatim>\<open>expires_at\<close> seconds, to the microsecond (valid
  at the boundary instant, expired one microsecond later). Consequently, when a
  \<^verbatim>\<open>set_item(k, v)\<close> has succeeded and more than \<^verbatim>\<open>item_lifetime\<close> has elapsed at
  both clock readings of a later \<^verbatim>\<open>get_item(k)\<close>, taken after the epoch and before
  \<open>2\<^sup>3\<^sup>4\<close> seconds, that call reports absent, although \<^verbatim>\<open>mem_cache\<close> and the durable
  file still hold the stale entry.
\<close>

theorem expiry_boundary_and_stale_entry:
  "has_expired now (item_json (v, e)) = Inr (\<not> timestamp now \<le> of_int e)
   \<and> (0 < microseconds now \<longrightarrow> microseconds now < 17179869184000000 \<longrightarrow>
        (timestamp now \<le> of_int e) = (microseconds now \<le> e * 1000000))
   \<and> (0 < microseconds tm \<longrightarrow> microseconds tm < 17179869184000000 \<longrightarrow>
      0 < microseconds tf \<longrightarrow> microseconds tf < 17179869184000000 \<longrightarrow>
      microseconds ts + item_lifetime self < microseconds tm \<longrightarrow>
      microseconds ts + item_lifetime self < microseconds tf \<longrightarrow>
      set_item self fs ts k v = (Inr (), self', fs') \<longrightarrow>
      get_item self' fs' tm tf k = Inr (Json JNull))"
proof (intro conjI impI)
  show "has_expired now (item_json (v, e)) = Inr (\<not> timestamp now \<le> of_int e)"
    by (simp add: has_expired_item_json not_le)
next
  assume "0 < microseconds now" and "microseconds now < 17179869184000000"
  then have "e * 1000000 < microseconds now \<Longrightarrow> of_int e < timestamp now"
    by (intro timestamp_above)
  then show "(timestamp now \<le> of_int e) = (microseconds now \<le> e * 1000000)"
    using timestamp_le [of now e] by fastforce
next
  assume pm: "0 < microseconds tm" and bm: "microseconds tm < 17179869184000000"
    and pf: "0 < microseconds tf" and bf: "microseconds tf < 17179869184000000"
    and lm: "microseconds ts + item_lifetime self < microseconds tm"
    and lf: "microseconds ts + item_lifetime self < microseconds tf"
    and set: "set_item self fs ts k v = (Inr (), self', fs')"
  let ?x = "microseconds ts + item_lifetime self"
  from set_item_stores [OF set] obtain item where
    c: "create_item self ts v = Inr item"
    and mem: "mem_cache self' k = Some item"
    and path: "cache_path self' = cache_path self"
    and entry: "load_entry (fs' (cache_path self)) k = Inr (item_json item)"
    by blast
  from create_item_cases [OF c] have range: "datetime_min \<le> ?x" "?x \<le> datetime_max"
    and item: "item = (v, int_of_float (true_divide ?x 1000000))"
    by simp_all
  let ?e = "int_of_float (true_divide ?x 1000000)"
  have "microseconds (datetime_of ?x) < 17179869184000000"
    using range bm lm by (simp add: microseconds_datetime_of)
  then have "int_of_float (timestamp (datetime_of ?x)) * 1000000
               \<le> max (microseconds (datetime_of ?x)) 0"
    by (rule expiry_not_after)
  then have le: "?e * 1000000 \<le> max ?x 0"
    using range by (simp add: timestamp_def microseconds_datetime_of)
  have em: "?e * 1000000 < microseconds tm" and ef: "?e * 1000000 < microseconds tf"
    using le pm pf lm lf by linarith+
  have xm: "has_expired tm (JArr [v, JInt ?e]) = Inr True"
    using pm bm em by (rule expired)
  have xf: "has_expired tf (JArr [v, JInt ?e]) = Inr True"
    using pf bf ef by (rule expired)
  from mem path entry item xm xf show "get_item self' fs' tm tf k = Inr (Json JNull)"
    by (simp add: get_item_def item_json_def)
qed

theorem expiry_boundary_and_stale_entry_witness:
  "has_expired (datetime_of 1700000010000000) (item_json (JStr ''v'', 1700000010)) = Inr False
   \<and> has_expired (datetime_of 1700000010000001) (item_json (JStr ''v'', 1700000010)) = Inr True
   \<and> (0::int) < microseconds (datetime_of 1700000011000000)
   \<and> microseconds (datetime_of 1700000011000000) < 17179869184000000
   \<and> microseconds (datetime_of 1700000000000000) + item_lifetime fresh_cache
       < microseconds (datetime_of 1700000011000000)
   \<and> fst (set_item fresh_cache empty_disk (datetime_of 1700000000000000) ''q1'' (JStr ''v''))
       = Inr ()
   \<and> get_item
       (fst (snd (set_item fresh_cache empty_disk (datetime_of 1700000000000000) ''q1''
                    (JStr ''v''))))
       (snd (snd (set_item fresh_cache empty_disk (datetime_of 1700000000000000) ''q1''
                    (JStr ''v''))))
       (datetime_of 1700000011000000) (datetime_of 1700000011000000) ''q1''
     = Inr (Json JNull)"
proof -
  let ?s = "set_item fresh_cache empty_disk (datetime_of 1700000000000000) ''q1'' (JStr ''v'')"
  have m: "microseconds (datetime_of 1700000000000000) = 1700000000000000"
    "microseconds (datetime_of 1700000010000000) = 1700000010000000"
    "microseconds (datetime_of 1700000010000001) = 1700000010000001"
    "microseconds (datetime_of 1700000011000000) = 1700000011000000"
    by (simp_all add: microseconds_datetime_of datetime_min_def datetime_max_def)
  have c: "create_item fresh_cache (datetime_of 1700000000000000) (JStr ''v'')
             = Inr (JStr ''v'', 1700000010)"
    by (rule create_item_whole)
       (simp_all add: m datetime_min_def datetime_max_def fresh_cache_fields)
  have e: "empty_disk (cache_path fresh_cache) = None \<or>
           empty_disk (cache_path fresh_cache) = Some NotJson"
    by (simp add: empty_disk_def)
  have s: "?s = (Inr (), fst (snd ?s), snd (snd ?s))"
    by (simp add: set_item_recreates [where fs = empty_disk and self = fresh_cache, OF e c])
  from expiry_boundary_and_stale_entry
         [where now = "datetime_of 1700000010000000" and v = "JStr ''v''" and e = 1700000010
            and ts = "datetime_of 1700000000000000" and self = fresh_cache
            and tm = "datetime_of 1700000011000000" and tf = "datetime_of 1700000011000000"
            and fs = empty_disk and k = "''q1''"
            and self' = "fst (snd ?s)" and fs' = "snd (snd ?s)"]
       expiry_boundary_and_stale_entry
         [where now = "datetime_of 1700000010000001" and v = "JStr ''v''" and e = 1700000010
            and ts = "datetime_of 1700000000000000" and self = fresh_cache
            and tm = "datetime_of 1700000011000000" and tf = "datetime_of 1700000011000000"
            and fs = empty_disk and k = "''q1''"
            and self' = "fst (snd ?s)" and fs' = "snd (snd ?s)"] s
  show ?thesis
    by (simp add: m fresh_cache_fields
        set_item_recreates [where fs = empty_disk and self = fresh_cache, OF e c])
qed

text \<open>
  C5. In a fresh process, whose \<^verbatim>\<open>mem_cache\<close> is empty, if the durable file is a JSON
  object with an entry \<^verbatim>\<open>k -> [v, expires_at]\<close> that has not expired at the clock
  reading of the call, \<^verbatim>\<open>get_item(k)\<close> returns \<open>v\<close>; no \<^verbatim>\<open>set_item\<close> is needed.
\<close>

theorem get_item_durable_entry:
  assumes "mem_cache self = Map.empty"
    and "fs (cache_path self) = Some (Doc (JObj kvs))"
    and "map_of kvs k = Some (JArr [v, JInt e])"
    and "microseconds tf \<le> e * 1000000"
  shows "get_item self fs tm tf k = Inr (Json v)"
  using assms not_expired [OF assms(4), of v] by (simp add: get_item_def)

theorem get_item_durable_entry_witness:
  "mem_cache fresh_cache = Map.empty
   \<and> stored_disk (cache_path fresh_cache)
       = Some (Doc (JObj [(''q1'', JArr [JArr [JStr ''a'', JStr ''b''], JInt 1700000010])]))
   \<and> microseconds (datetime_of 1700000005000000) \<le> 1700000010 * 1000000
   \<and> get_item fresh_cache stored_disk (datetime_of 1700000005000000)
       (datetime_of 1700000005000000) ''q1''
       = Inr (Json (JArr [JStr ''a'', JStr ''b'']))"
proof -
  have m: "mem_cache fresh_cache = Map.empty"
    by (simp add: fresh_cache_fields)
  have f: "stored_disk (cache_path fresh_cache)
             = Some (Doc (JObj [(''q1'', JArr [JArr [JStr ''a'', JStr ''b''], JInt 1700000010])]))"
    by (simp add: fresh_cache_fields stored_disk_def)
  have k: "map_of [(''q1'', JArr [JArr [JStr ''a'', JStr ''b''], JInt 1700000010])] ''q1''
             = Some (JArr [JArr [JStr ''a'', JStr ''b''], JInt 1700000010])"
    by simp
  have t: "microseconds (datetime_of 1700000005000000) \<le> 1700000010 * 1000000"
    by (simp add: microseconds_datetime_of datetime_min_def datetime_max_def)
  from get_item_durable_entry
         [where self = fresh_cache and fs = stored_disk and k = "''q1''"
            and tm = "datetime_of 1700000005000000", OF m f k t] m f t
  show ?thesis by simp
qed

section \<open>Properties of the media pipeline\<close>

lemma endswith_append: "endswith (stem @ suffix) suffix"
  by (simp add: endswith_def)

lemma tmp_names_differ: "tmp_mp4_file env \<noteq> tmp_mp3_file env"
proof
  assume "tmp_mp4_file env = tmp_mp3_file env"
  then have "last (tmp_mp4_stem env @ ''.mp4'') = last (tmp_mp3_stem env @ ''.mp3'')"
    by (simp add: tmp_mp4_file_def tmp_mp3_file_def)
  then show False by simp
qed

text \<open>No step of the pipeline removes a file.\<close>

lemma isfile_write_files: "isfile fs p \<Longrightarrow> isfile (write_files fs ws) p"
  by (induction fs ws rule: write_files.induct) (auto simp: isfile_def)

lemma isfile_download:
  "download_youtube_video env fs v filepath = (r, fs') \<Longrightarrow> isfile fs p \<Longrightarrow> isfile fs' p"
  by (auto simp: download_youtube_video_def isfile_def
      split: if_splits sum.splits exn.splits option.splits)

lemma isfile_convert:
  "convert_mp4_to_mp3 st env fs a b = (r, fs', runs) \<Longrightarrow> isfile fs p \<Longrightarrow> isfile fs' p"
  by (auto simp: convert_mp4_to_mp3_def Let_def isfile_write_files split: if_splits sum.splits)

lemma isfile_tag_save:
  "tag_save env tag fs f = Inr fs' \<Longrightarrow> isfile fs p \<Longrightarrow> isfile fs' p"
  by (auto simp: tag_save_def isfile_def split: option.splits)

lemma isfile_tag_mp3:
  "tag_mp3 env m fs f = Inr fs' \<Longrightarrow> isfile fs p \<Longrightarrow> isfile fs' p"
  by (auto simp: tag_mp3_def Let_def split: sum.splits dest: isfile_tag_save)

lemma isfile_try_download:
  assumes "try_download st env fs v m = (r, fs')" and "isfile fs p"
  shows "isfile fs' p"
proof -
  obtain ra fsa where d: "download_youtube_video env fs v (tmp_mp4_file env) = (ra, fsa)"
    by (cases "download_youtube_video env fs v (tmp_mp4_file env)")
  have ia: "isfile fsa p" using isfile_download [OF d assms(2)] .
  obtain rb fsb runs where
    c: "convert_mp4_to_mp3 st env fsa (tmp_mp4_file env) (tmp_mp3_file env) = (rb, fsb, runs)"
    by (cases "convert_mp4_to_mp3 st env fsa (tmp_mp4_file env) (tmp_mp3_file env)")
  have ib: "isfile fsb p" using isfile_convert [OF c ia] .
  from assms(1) d c ia ib show ?thesis
    by (auto simp: try_download_def split: sum.splits dest: isfile_tag_mp3)
qed

lemma isfile_create_tmp_files:
  "isfile (create_tmp_files env fs) (tmp_mp4_file env)"
  "isfile (create_tmp_files env fs) (tmp_mp3_file env)"
  by (simp_all add: create_tmp_files_def isfile_def)

lemma remove_tmp_files_ok:
  "isfile fs a \<Longrightarrow> isfile fs b \<Longrightarrow> a \<noteq> b \<Longrightarrow>
   remove_tmp_files fs a b = (Inr (), fs(a := None, b := None))"
  by (simp add: remove_tmp_files_def os_remove_def isfile_def)

lemma download_video_as_mp3_failure:
  assumes "\<not> MOCK_MODE st"
    and "try_download st env (create_tmp_files env fs) (url_decode l video_id)
           \<lparr>title = url_decode l t, artist = url_decode l a, album = url_decode l al,
            album_cover_url = url_decode l c\<rparr> = (Inl err, fsa)"
  shows "download_video_as_mp3 st l env fs video_id t a al c
           = (Inl err, fsa(tmp_mp4_file env := None, tmp_mp3_file env := None))"
proof -
  have "isfile fsa (tmp_mp4_file env)" "isfile fsa (tmp_mp3_file env)"
    using isfile_try_download [OF assms(2)] isfile_create_tmp_files by blast+
  then have "remove_tmp_files fsa (tmp_mp4_file env) (tmp_mp3_file env)
      = (Inr (), fsa(tmp_mp4_file env := None, tmp_mp3_file env := None))"
    by (simp add: remove_tmp_files_ok tmp_names_differ)
  with assms show ?thesis
    by (simp add: download_video_as_mp3_def)
qed

lemma download_not_found:
  assumes "reports_no_resource env video_id" and "isfile fs p"
  shows "download_youtube_video env fs video_id p
           = (Inl (HTTPException 404 (''No video found with ID '' @ video_id)), fs)"
  using assms
  by (auto simp: download_youtube_video_def reports_no_resource_def not_found_def
      split: sum.splits exn.splits option.splits)

lemma download_ok:
  assumes "isfile fs p" and "get_audio_only env v = Inr (Some s)"
    and "stream_download env s = Inr bytes"
  shows "download_youtube_video env fs v p = (Inr (), fs(p \<mapsto> \<lparr>audio = bytes, id3 = None\<rparr>))"
  using assms by (simp add: download_youtube_video_def)

lemma convert_ok:
  assumes "isfile fs (tmp_mp4_file env)" and "isfile fs (tmp_mp3_file env)"
    and "subprocess_run env (split (CHR '' '')
           (FFMPEG_PATH st @ '' -i '' @ tmp_mp4_file env @ '' -ab 320k -y '' @ tmp_mp3_file env))
         = Inr (0, written)"
  shows "\<exists>fs' runs. convert_mp4_to_mp3 st env fs (tmp_mp4_file env) (tmp_mp3_file env)
                       = (Inr (), fs', runs)
           \<and> isfile fs' (tmp_mp3_file env)"
  using assms
  by (simp add: convert_mp4_to_mp3_def Let_def tmp_mp4_file_def tmp_mp3_file_def endswith_append
      isfile_write_files)

lemma tag_mp3_ok:
  assumes "fs filename = Some f"
    and "httpx_get env (album_cover_url m) = Inr response"
    and "body response \<noteq> []"
    and "tag_save_error env = None"
  shows "tag_mp3 env m fs filename =
           Inr (fs(filename \<mapsto> f\<lparr>id3 := Some
               \<lparr>tag_title = set_text_frame (title m), tag_artist = set_text_frame (artist m),
                tag_album = set_text_frame (album m),
                images = [\<lparr>img_data = body response, type_ = FRONT_COVER,
                           mime_type = ''image/jpeg'',
                           description = album m @ '' Front Cover''\<rparr>],
                lyrics = [\<lparr>lyrics_text = [], lyrics_description = [], lang = ''   ''\<rparr>]\<rparr>\<rparr>))"
  using assms
  by (simp add: tag_mp3_def Let_def tag_save_def images_set_def lyrics_set_def new_Tag_def)

lemma try_download_ok:
  assumes "isfile fs (tmp_mp4_file env)" and "isfile fs (tmp_mp3_file env)"
    and "get_audio_only env v = Inr (Some s)" and "stream_download env s = Inr bytes"
    and "subprocess_run env (split (CHR '' '')
           (FFMPEG_PATH st @ '' -i '' @ tmp_mp4_file env @ '' -ab 320k -y '' @ tmp_mp3_file env))
         = Inr (0, written)"
    and "httpx_get env (album_cover_url m) = Inr response"
    and "body response \<noteq> []"
    and "tag_save_error env = None"
  shows "\<exists>fs' f. try_download st env fs v m
            = (Inr \<lparr>path = tmp_mp3_file env, media_type = Some ''audio/mpeg'',
                    background = True\<rparr>, fs')
          \<and> fs' (tmp_mp3_file env) = Some f
          \<and> id3 f = Some
               \<lparr>tag_title = set_text_frame (title m), tag_artist = set_text_frame (artist m),
                tag_album = set_text_frame (album m),
                images = [\<lparr>img_data = body response, type_ = FRONT_COVER,
                           mime_type = ''image/jpeg'',
                           description = album m @ '' Front Cover''\<rparr>],
                lyrics = [\<lparr>lyrics_text = [], lyrics_description = [], lang = ''   ''\<rparr>]\<rparr>"
proof -
  let ?fsa = "fs(tmp_mp4_file env \<mapsto> \<lparr>audio = bytes, id3 = None\<rparr>)"
  have d: "download_youtube_video env fs v (tmp_mp4_file env) = (Inr (), ?fsa)"
    using download_ok [OF assms(1,3,4)] .
  have "isfile ?fsa (tmp_mp4_file env)" "isfile ?fsa (tmp_mp3_file env)"
    using assms(2) by (simp_all add: isfile_def)
  from convert_ok [OF this assms(5)] obtain fsb runs where
    c: "convert_mp4_to_mp3 st env ?fsa (tmp_mp4_file env) (tmp_mp3_file env) = (Inr (), fsb, runs)"
    and i: "isfile fsb (tmp_mp3_file env)" by blast
  from i obtain f where f: "fsb (tmp_mp3_file env) = Some f"
    by (auto simp: isfile_def)
  show ?thesis
    using d c tag_mp3_ok [where fs = fsb and filename = "tmp_mp3_file env", OF f assms(6,7,8)]
    by (simp add: try_download_def)
qed

lemma download_video_as_mp3_ok:
  assumes "\<not> MOCK_MODE st"
    and "get_audio_only env (url_decode l video_id) = Inr (Some s)"
    and "stream_download env s = Inr bytes"
    and "subprocess_run env (split (CHR '' '')
           (FFMPEG_PATH st @ '' -i '' @ tmp_mp4_file env @ '' -ab 320k -y '' @ tmp_mp3_file env))
         = Inr (0, written)"
    and "httpx_get env (url_decode l c) = Inr response"
    and "body response \<noteq> []"
    and "tag_save_error env = None"
  shows "\<exists>fs' f. download_video_as_mp3 st l env fs video_id t a al c
            = (Inr \<lparr>path = tmp_mp3_file env, media_type = Some ''audio/mpeg'',
                    background = True\<rparr>, fs')
          \<and> fs' (tmp_mp3_file env) = Some f
          \<and> id3 f = Some
               \<lparr>tag_title = set_text_frame (url_decode l t),
                tag_artist = set_text_frame (url_decode l a),
                tag_album = set_text_frame (url_decode l al),
                images = [\<lparr>img_data = body response, type_ = FRONT_COVER,
                           mime_type = ''image/jpeg'',
                           description = url_decode l al @ '' Front Cover''\<rparr>],
                lyrics = [\<lparr>lyrics_text = [], lyrics_description = [], lang = ''   ''\<rparr>]\<rparr>"
proof -
  let ?m = "\<lparr>title = url_decode l t, artist = url_decode l a,
             album = url_decode l al, album_cover_url = url_decode l c\<rparr>"
  have h: "httpx_get env (album_cover_url ?m) = Inr response"
    using assms(5) by simp
  from try_download_ok [OF isfile_create_tmp_files assms(2,3,4) h assms(6,7), of fs]
  obtain fs' f where
    "try_download st env (create_tmp_files env fs) (url_decode l video_id) ?m
       = (Inr \<lparr>path = tmp_mp3_file env, media_type = Some ''audio/mpeg'',
               background = True\<rparr>, fs')"
    "fs' (tmp_mp3_file env) = Some f"
    "id3 f = Some
               \<lparr>tag_title = set_text_frame (url_decode l t),
                tag_artist = set_text_frame (url_decode l a),
                tag_album = set_text_frame (url_decode l al),
                images = [\<lparr>img_data = body response, type_ = FRONT_COVER,
                           mime_type = ''image/jpeg'',
                           description = url_decode l al @ '' Front Cover''\<rparr>],
                lyrics = [\<lparr>lyrics_text = [], lyrics_description = [], lang = ''   ''\<rparr>]\<rparr>"
    by auto
  with assms(1) show ?thesis
    by (simp add: download_video_as_mp3_def)
qed

text \<open>The pipeline on the example collaborators, by evaluation.\<close>

lemma example_env_names:
  "tmp_mp4_file (example_env found rc status cover) = ''/tmp/tmpa1.mp4''"
  "tmp_mp3_file (example_env found rc status cover) = ''/tmp/tmpb2.mp3''"
  by (simp_all add: tmp_mp4_file_def tmp_mp3_file_def example_env_def)

lemma example_download:
  "download_youtube_video (example_env (Inr (Some ''stream'')) rc status cover)
     (create_tmp_files (example_env (Inr (Some ''stream'')) rc status cover) no_files)
     ''abc123'' ''/tmp/tmpa1.mp4''
   = (Inr (), [''/tmp/tmpa1.mp4'' \<mapsto> \<lparr>audio = ''mp4 audio'', id3 = None\<rparr>,
               ''/tmp/tmpb2.mp3'' \<mapsto> \<lparr>audio = [], id3 = None\<rparr>])"
  by (simp add: download_youtube_video_def create_tmp_files_def example_env_names isfile_def
      no_files_def fun_upd_twist)
     (simp add: example_env_def)

lemmas run_defs =
  download_video_as_mp3_def try_download_def download_youtube_video_def convert_mp4_to_mp3_def
  tag_mp3_def create_tmp_files_def tmp_mp4_file_def tmp_mp3_file_def example_env_def
  example_lib_def example_settings_def no_files_def isfile_def endswith_def tag_save_def
  images_set_def lyrics_set_def new_Tag_def set_text_frame_def remove_tmp_files_def
  os_remove_def not_found_def Let_def

text \<open>
  C3. When the download step raises (NotFound or anything else), or the download succeeds
  and the transcode step raises, or both succeed and the tagging step raises (the cover-art
  request, \<^verbatim>\<open>tag.images.set\<close> or \<^verbatim>\<open>tag.save\<close>), the acquisition raises that same
  exception to its caller, and when it does both temporary files of the request (the raw
  \<^verbatim>\<open>.mp4\<close> and the encoded \<^verbatim>\<open>.mp3\<close>) have been removed: no encoded output remains.
\<close>

theorem failed_step_removes_tmp_files:
  assumes "\<not> MOCK_MODE st"
    and "download_youtube_video env (create_tmp_files env fs) (url_decode l video_id)
           (tmp_mp4_file env) = (Inl err, fsa)
       \<or> (\<exists>fsd runs.
             download_youtube_video env (create_tmp_files env fs) (url_decode l video_id)
               (tmp_mp4_file env) = (Inr (), fsd)
           \<and> convert_mp4_to_mp3 st env fsd (tmp_mp4_file env) (tmp_mp3_file env)
               = (Inl err, fsa, runs))
       \<or> (\<exists>fsd runs.
             download_youtube_video env (create_tmp_files env fs) (url_decode l video_id)
               (tmp_mp4_file env) = (Inr (), fsd)
           \<and> convert_mp4_to_mp3 st env fsd (tmp_mp4_file env) (tmp_mp3_file env)
               = (Inr (), fsa, runs)
           \<and> tag_mp3 env
                 \<lparr>title = url_decode l t, artist = url_decode l a, album = url_decode l al,
                  album_cover_url = url_decode l c\<rparr> fsa (tmp_mp3_file env) = Inl err)"
  shows "download_video_as_mp3 st l env fs video_id t a al c
           = (Inl err, fsa(tmp_mp4_file env := None, tmp_mp3_file env := None))
       \<and> snd (download_video_as_mp3 st l env fs video_id t a al c) (tmp_mp4_file env) = None
       \<and> snd (download_video_as_mp3 st l env fs video_id t a al c) (tmp_mp3_file env) = None"
proof -
  from assms(2)
  have "try_download st env (create_tmp_files env fs) (url_decode l video_id)
           \<lparr>title = url_decode l t, artist = url_decode l a, album = url_decode l al,
            album_cover_url = url_decode l c\<rparr> = (Inl err, fsa)"
    by (auto simp: try_download_def)
  from download_video_as_mp3_failure [OF assms(1) this] show ?thesis by simp
qed

theorem failed_step_removes_tmp_files_witness:
  "\<not> MOCK_MODE example_settings
   \<and> fst (download_video_as_mp3 example_settings example_lib
             (example_env (Inl (VideoUnavailable ''missing123'')) 0 200 ''cover bytes'') no_files
             ''missing123'' ''T'' ''A'' ''B'' ''http://x/y.jpg'')
      = Inl (HTTPException 404 ''No video found with ID missing123'')
   \<and> snd (download_video_as_mp3 example_settings example_lib
             (example_env (Inl (VideoUnavailable ''missing123'')) 0 200 ''cover bytes'') no_files
             ''missing123'' ''T'' ''A'' ''B'' ''http://x/y.jpg'') ''/tmp/tmpa1.mp4'' = None
   \<and> snd (download_video_as_mp3 example_settings example_lib
             (example_env (Inl (VideoUnavailable ''missing123'')) 0 200 ''cover bytes'') no_files
             ''missing123'' ''T'' ''A'' ''B'' ''http://x/y.jpg'') ''/tmp/tmpb2.mp3'' = None
   \<and> fst (download_video_as_mp3 example_settings example_lib
             (example_env (Inr (Some ''stream'')) 1 200 ''cover bytes'') no_files
             ''abc123'' ''T'' ''A'' ''B'' ''http://x/y.jpg'')
      = Inl (Exception ''Could not convert mp4 to mp3.'')
   \<and> snd (download_video_as_mp3 example_settings example_lib
             (example_env (Inr (Some ''stream'')) 1 200 ''cover bytes'') no_files
             ''abc123'' ''T'' ''A'' ''B'' ''http://x/y.jpg'') ''/tmp/tmpa1.mp4'' = None
   \<and> snd (download_video_as_mp3 example_settings example_lib
             (example_env (Inr (Some ''stream'')) 1 200 ''cover bytes'') no_files
             ''abc123'' ''T'' ''A'' ''B'' ''http://x/y.jpg'') ''/tmp/tmpb2.mp3'' = None
   \<and> fst (download_video_as_mp3 example_settings example_lib
             (example_env (Inr (Some ''stream'')) 0 200 []) no_files
             ''abc123'' ''T'' ''A'' ''B'' ''http://x/y.jpg'')
      = Inl ValueError
   \<and> snd (download_video_as_mp3 example_settings example_lib
             (example_env (Inr (Some ''stream'')) 0 200 []) no_files
             ''abc123'' ''T'' ''A'' ''B'' ''http://x/y.jpg'') ''/tmp/tmpa1.mp4'' = None
   \<and> snd (download_video_as_mp3 example_settings example_lib
             (example_env (Inr (Some ''stream'')) 0 200 []) no_files
             ''abc123'' ''T'' ''A'' ''B'' ''http://x/y.jpg'') ''/tmp/tmpb2.mp3'' = None"
proof -
  let ?gone = "example_env (Inl (VideoUnavailable ''missing123'')) 0 200 ''cover bytes''"
  let ?broken = "example_env (Inr (Some ''stream'')) 1 200 ''cover bytes''"
  let ?blank = "example_env (Inr (Some ''stream'')) 0 200 []"
  let ?downloaded = "[''/tmp/tmpa1.mp4'' \<mapsto> \<lparr>audio = ''mp4 audio'', id3 = None\<rparr>,
                      ''/tmp/tmpb2.mp3'' \<mapsto> \<lparr>audio = [], id3 = None\<rparr>]"
  let ?encoded = "[''/tmp/tmpa1.mp4'' \<mapsto> \<lparr>audio = ''mp4 audio'', id3 = None\<rparr>,
                   ''/tmp/tmpb2.mp3'' \<mapsto> \<lparr>audio = ''mp3 audio'', id3 = None\<rparr>]"
  have m: "\<not> MOCK_MODE example_settings"
    by (simp add: example_settings_def)
  have u: "url_decode example_lib = (\<lambda>s. s)"
    by (simp add: example_lib_def)
  have d1: "download_youtube_video ?gone (create_tmp_files ?gone no_files)
              (url_decode example_lib ''missing123'') (tmp_mp4_file ?gone)
            = (Inl (HTTPException 404 ''No video found with ID missing123''),
               create_tmp_files ?gone no_files)"
    by (simp add: download_youtube_video_def isfile_create_tmp_files u)
       (simp add: example_env_def not_found_def)
  have d2: "download_youtube_video ?broken (create_tmp_files ?broken no_files)
              (url_decode example_lib ''abc123'') (tmp_mp4_file ?broken) = (Inr (), ?downloaded)"
    using example_download [of 1 200 "''cover bytes''"] by (simp add: u example_env_names)
  have c2: "convert_mp4_to_mp3 example_settings ?broken ?downloaded (tmp_mp4_file ?broken)
              (tmp_mp3_file ?broken)
            = (Inl (Exception ''Could not convert mp4 to mp3.''), ?encoded,
               [[''/usr/bin/ffmpeg'', ''-i'', ''/tmp/tmpa1.mp4'', ''-ab'', ''320k'', ''-y'',
                 ''/tmp/tmpb2.mp3'']])"
    by (simp add: convert_mp4_to_mp3_def example_env_names isfile_def endswith_def
        example_settings_def)
       (simp add: example_env_def)
  have d3: "download_youtube_video ?blank (create_tmp_files ?blank no_files)
              (url_decode example_lib ''abc123'') (tmp_mp4_file ?blank) = (Inr (), ?downloaded)"
    using example_download [of 0 200 "[]"] by (simp add: u example_env_names)
  have c3: "convert_mp4_to_mp3 example_settings ?blank ?downloaded (tmp_mp4_file ?blank)
              (tmp_mp3_file ?blank)
            = (Inr (), ?encoded,
               [[''/usr/bin/ffmpeg'', ''-i'', ''/tmp/tmpa1.mp4'', ''-ab'', ''320k'', ''-y'',
                 ''/tmp/tmpb2.mp3'']])"
    by (simp add: convert_mp4_to_mp3_def example_env_names isfile_def endswith_def
        example_settings_def)
       (simp add: example_env_def)
  have t3: "tag_mp3 ?blank
              \<lparr>title = url_decode example_lib ''T'', artist = url_decode example_lib ''A'',
               album = url_decode example_lib ''B'',
               album_cover_url = url_decode example_lib ''http://x/y.jpg''\<rparr>
              ?encoded (tmp_mp3_file ?blank) = Inl ValueError"
    by (simp add: tag_mp3_def images_set_def example_env_def)
  from failed_step_removes_tmp_files
         [where st = example_settings and env = ?gone and fs = no_files and l = example_lib
            and video_id = "''missing123''" and t = "''T''" and a = "''A''" and al = "''B''"
            and c = "''http://x/y.jpg''", OF m disjI1, OF d1]
  have r1: "fst (download_video_as_mp3 example_settings example_lib ?gone no_files
                   ''missing123'' ''T'' ''A'' ''B'' ''http://x/y.jpg'')
              = Inl (HTTPException 404 ''No video found with ID missing123'')"
    "snd (download_video_as_mp3 example_settings example_lib ?gone no_files
            ''missing123'' ''T'' ''A'' ''B'' ''http://x/y.jpg'') ''/tmp/tmpa1.mp4'' = None"
    "snd (download_video_as_mp3 example_settings example_lib ?gone no_files
            ''missing123'' ''T'' ''A'' ''B'' ''http://x/y.jpg'') ''/tmp/tmpb2.mp3'' = None"
    by (simp_all add: example_env_names)
  have h2: "\<exists>fsd runs.
             download_youtube_video ?broken (create_tmp_files ?broken no_files)
               (url_decode example_lib ''abc123'') (tmp_mp4_file ?broken) = (Inr (), fsd)
           \<and> convert_mp4_to_mp3 example_settings ?broken fsd (tmp_mp4_file ?broken)
                 (tmp_mp3_file ?broken)
               = (Inl (Exception ''Could not convert mp4 to mp3.''), ?encoded, runs)"
    using d2 c2 by blast
  from failed_step_removes_tmp_files
         [where st = example_settings and env = ?broken and fs = no_files and l = example_lib
            and video_id = "''abc123''" and t = "''T''" and a = "''A''" and al = "''B''"
            and c = "''http://x/y.jpg''", OF m disjI2, OF disjI1, OF h2]
  have r2: "fst (download_video_as_mp3 example_settings example_lib ?broken no_files
                   ''abc123'' ''T'' ''A'' ''B'' ''http://x/y.jpg'')
              = Inl (Exception ''Could not convert mp4 to mp3.'')"
    "snd (download_video_as_mp3 example_settings example_lib ?broken no_files
            ''abc123'' ''T'' ''A'' ''B'' ''http://x/y.jpg'') ''/tmp/tmpa1.mp4'' = None"
    "snd (download_video_as_mp3 example_settings example_lib ?broken no_files
            ''abc123'' ''T'' ''A'' ''B'' ''http://x/y.jpg'') ''/tmp/tmpb2.mp3'' = None"
    by (simp_all add: example_env_names)
  have h3: "\<exists>fsd runs.
             download_youtube_video ?blank (create_tmp_files ?blank no_files)
               (url_decode example_lib ''abc123'') (tmp_mp4_file ?blank) = (Inr (), fsd)
           \<and> convert_mp4_to_mp3 example_settings ?blank fsd (tmp_mp4_file ?blank)
                 (tmp_mp3_file ?blank) = (Inr (), ?encoded, runs)
           \<and> tag_mp3 ?blank
                 \<lparr>title = url_decode example_lib ''T'', artist = url_decode example_lib ''A'',
                  album = url_decode example_lib ''B'',
                  album_cover_url = url_decode example_lib ''http://x/y.jpg''\<rparr>
                 ?encoded (tmp_mp3_file ?blank) = Inl ValueError"
    using d3 c3 t3 by blast
  from failed_step_removes_tmp_files
         [where st = example_settings and env = ?blank and fs = no_files and l = example_lib
            and video_id = "''abc123''" and t = "''T''" and a = "''A''" and al = "''B''"
            and c = "''http://x/y.jpg''", OF m disjI2, OF disjI2, OF h3]
  have r3: "fst (download_video_as_mp3 example_settings example_lib ?blank no_files
                   ''abc123'' ''T'' ''A'' ''B'' ''http://x/y.jpg'') = Inl ValueError"
    "snd (download_video_as_mp3 example_settings example_lib ?blank no_files
            ''abc123'' ''T'' ''A'' ''B'' ''http://x/y.jpg'') ''/tmp/tmpa1.mp4'' = None"
    "snd (download_video_as_mp3 example_settings example_lib ?blank no_files
            ''abc123'' ''T'' ''A'' ''B'' ''http://x/y.jpg'') ''/tmp/tmpb2.mp3'' = None"
    by (simp_all add: example_env_names)
  from m r1 r2 r3 show ?thesis by blast
qed

text \<open>
  C6. When the audio-hosting collaborator reports that no resource exists for the
  identifier (\<^verbatim>\<open>VideoUnavailable\<close> is raised, or there is no audio stream), the download
  operation, called on an existing placeholder file, fails with the HTTP exception of status
  404 whose detail carries the identifier, and the acquisition endpoint surfaces that same
  exception to its caller: a 404, where every other failure of the pipeline is another
  exception.
\<close>

theorem unavailable_video_is_not_found:
  assumes "reports_no_resource env video_id"
  shows "(isfile fs filepath \<longrightarrow>
            download_youtube_video env fs video_id filepath
              = (Inl (HTTPException 404 (''No video found with ID '' @ video_id)), fs))
       \<and> (\<not> MOCK_MODE st \<longrightarrow> url_decode l raw_id = video_id \<longrightarrow>
            fst (download_video_as_mp3 st l env fs' raw_id t a al c)
              = Inl (HTTPException 404 (''No video found with ID '' @ video_id)))"
proof (intro conjI impI)
  assume "isfile fs filepath"
  with assms show "download_youtube_video env fs video_id filepath
            = (Inl (HTTPException 404 (''No video found with ID '' @ video_id)), fs)"
    by (rule download_not_found)
next
  assume nm: "\<not> MOCK_MODE st" and id: "url_decode l raw_id = video_id"
  let ?m = "\<lparr>title = url_decode l t, artist = url_decode l a, album = url_decode l al,
            album_cover_url = url_decode l c\<rparr>"
  have "try_download st env (create_tmp_files env fs') (url_decode l raw_id) ?m
          = (Inl (HTTPException 404 (''No video found with ID '' @ video_id)),
             create_tmp_files env fs')"
    using download_not_found [OF assms isfile_create_tmp_files(1)] id
    by (simp add: try_download_def)
  from download_video_as_mp3_failure [OF nm this]
  show "fst (download_video_as_mp3 st l env fs' raw_id t a al c)
            = Inl (HTTPException 404 (''No video found with ID '' @ video_id))"
    by simp
qed

theorem unavailable_video_is_not_found_witness:
  "reports_no_resource (example_env (Inr None) 0 200 ''cover bytes'') ''missing123''
   \<and> isfile example_files ''/tmp/a.mp4''
   \<and> \<not> MOCK_MODE example_settings
   \<and> url_decode example_lib ''missing123'' = ''missing123''
   \<and> download_youtube_video (example_env (Inr None) 0 200 ''cover bytes'') example_files
        ''missing123'' ''/tmp/a.mp4''
      = (Inl (HTTPException 404 ''No video found with ID missing123''), example_files)
   \<and> fst (download_video_as_mp3 example_settings example_lib
             (example_env (Inr None) 0 200 ''cover bytes'')
             no_files ''missing123'' ''T'' ''A'' ''B'' ''http://x/y.jpg'')
      = Inl (HTTPException 404 ''No video found with ID missing123'')"
proof -
  have r: "reports_no_resource (example_env (Inr None) 0 200 ''cover bytes'') ''missing123''"
    by (simp add: reports_no_resource_def example_env_def)
  have i: "isfile example_files ''/tmp/a.mp4''"
    by (simp add: isfile_def example_files_def)
  have m: "\<not> MOCK_MODE example_settings"
    by (simp add: example_settings_def)
  have u: "url_decode example_lib ''missing123'' = ''missing123''"
    by (simp add: example_lib_def)
  from unavailable_video_is_not_found
         [OF r, where fs = example_files and filepath = "''/tmp/a.mp4''"
            and st = example_settings and l = example_lib and raw_id = "''missing123''"
            and fs' = no_files and t = "''T''" and a = "''A''" and al = "''B''"
            and c = "''http://x/y.jpg''"] r i m u
  show ?thesis by simp
qed

text \<open>
  C7. Claimed: the transcode step runs the encoding tool with exactly the arguments
  \<^verbatim>\<open>-i <input> -ab 320k -y <output>\<close>. The code formats that command line and then
  splits it at every space, so for the existing input \<^verbatim>\<open>/tmp/a b.mp4\<close>, which passes
  the checks of the step, the tool is given the two arguments \<^verbatim>\<open>/tmp/a\<close> and
  \<^verbatim>\<open>b.mp4\<close> in place of the input path.
\<close>

theorem convert_splits_input_path_at_space:
  "snd (snd (convert_mp4_to_mp3 example_settings (example_env (Inr None) 0 200 ''cover bytes'')
               example_files ''/tmp/a b.mp4'' ''/tmp/b.mp3''))
     = [[''/usr/bin/ffmpeg'', ''-i'', ''/tmp/a'', ''b.mp4'', ''-ab'', ''320k'', ''-y'',
         ''/tmp/b.mp3'']]
   \<and> snd (snd (convert_mp4_to_mp3 example_settings (example_env (Inr None) 0 200 ''cover bytes'')
               example_files ''/tmp/a b.mp4'' ''/tmp/b.mp3''))
     \<noteq> [[''/usr/bin/ffmpeg'', ''-i'', ''/tmp/a b.mp4'', ''-ab'', ''320k'', ''-y'',
         ''/tmp/b.mp3'']]"
  by (simp add: convert_mp4_to_mp3_def example_settings_def example_files_def example_env_def
      endswith_def isfile_def Let_def)

theorem convert_splits_input_path_at_space_witness:
  "endswith ''/tmp/a b.mp4'' ''.mp4'' \<and> isfile example_files ''/tmp/a b.mp4''
   \<and> endswith ''/tmp/b.mp3'' ''.mp3'' \<and> isfile example_files ''/tmp/b.mp3''
   \<and> snd (snd (convert_mp4_to_mp3 example_settings
                  (example_env (Inr None) 0 200 ''cover bytes'') example_files
                  ''/tmp/a b.mp4'' ''/tmp/b.mp3''))
       = [[''/usr/bin/ffmpeg'', ''-i'', ''/tmp/a'', ''b.mp4'', ''-ab'', ''320k'', ''-y'',
           ''/tmp/b.mp3'']]"
proof -
  have e: "endswith ''/tmp/a b.mp4'' ''.mp4''" "endswith ''/tmp/b.mp3'' ''.mp3''"
    by (simp_all add: endswith_def)
  have i: "isfile example_files ''/tmp/a b.mp4''" "isfile example_files ''/tmp/b.mp3''"
    by (simp_all add: isfile_def example_files_def)
  from convert_splits_input_path_at_space e i show ?thesis by blast
qed

text \<open>
  C9. Claimed: every acquisition whose download succeeds and whose encoding tool exits with 0
  returns a file whose title, artist and album tags equal the caller-supplied fields. With
  an empty title the returned file has no title tag (eyed3 drops an empty text frame, the
  field reads \<^verbatim>\<open>None\<close>); and when the cover-art response has an empty body,
  \<^verbatim>\<open>tag.images.set\<close> raises \<^verbatim>\<open>ValueError\<close> and no file is returned.
\<close>

theorem empty_title_or_cover_counterexample:
  "fst (download_video_as_mp3 example_settings example_lib
          (example_env (Inr (Some ''stream'')) 0 200 ''cover bytes'') no_files
          ''abc123'' [] ''A'' ''B'' ''http://x/y.jpg'')
     = Inr \<lparr>path = ''/tmp/tmpb2.mp3'', media_type = Some ''audio/mpeg'', background = True\<rparr>
   \<and> map_option (map_option tag_title \<circ> id3)
         (snd (download_video_as_mp3 example_settings example_lib
                 (example_env (Inr (Some ''stream'')) 0 200 ''cover bytes'') no_files
                 ''abc123'' [] ''A'' ''B'' ''http://x/y.jpg'') ''/tmp/tmpb2.mp3'')
     = Some (Some None)
   \<and> fst (download_video_as_mp3 example_settings example_lib
            (example_env (Inr (Some ''stream'')) 0 200 []) no_files
            ''abc123'' ''T'' ''A'' ''B'' ''http://x/y.jpg'')
     = Inl ValueError"
  by (simp add: run_defs)

text \<open>
  C9, amended. For an acquisition in which the download succeeds, the encoding tool exits
  with 0, the cover-art request returns a response with a non-empty body and
  \<^verbatim>\<open>tag.save\<close> does not raise, the call returns a response for the encoded file, and the
  tag saved in that file has, for each of title, artist and album that is not empty, the
  field of the metadata the caller supplied (the endpoint's parameters, each passed through
  \<^verbatim>\<open>url_decode\<close>), no tag for a field that is empty, and exactly one lyrics frame, whose
  text is empty.
\<close>

theorem successful_acquisition_is_tagged:
  assumes "\<not> MOCK_MODE st"
    and "get_audio_only env (url_decode l video_id) = Inr (Some s)"
    and "stream_download env s = Inr bytes"
    and "subprocess_run env (split (CHR '' '')
           (FFMPEG_PATH st @ '' -i '' @ tmp_mp4_file env @ '' -ab 320k -y '' @ tmp_mp3_file env))
         = Inr (0, written)"
    and "httpx_get env (url_decode l c) = Inr response"
    and "body response \<noteq> []"
    and "tag_save_error env = None"
  shows "\<exists>fs' f tag.
           download_video_as_mp3 st l env fs video_id t a al c
             = (Inr \<lparr>path = tmp_mp3_file env, media_type = Some ''audio/mpeg'',
                     background = True\<rparr>, fs')
         \<and> fs' (tmp_mp3_file env) = Some f \<and> id3 f = Some tag
         \<and> tag_title tag = (if url_decode l t = [] then None else Some (url_decode l t))
         \<and> tag_artist tag = (if url_decode l a = [] then None else Some (url_decode l a))
         \<and> tag_album tag = (if url_decode l al = [] then None else Some (url_decode l al))
         \<and> lyrics tag = [\<lparr>lyrics_text = [], lyrics_description = [], lang = ''   ''\<rparr>]"
proof -
  from download_video_as_mp3_ok [OF assms, of fs t a al]
  obtain fs' f where
    "download_video_as_mp3 st l env fs video_id t a al c
       = (Inr \<lparr>path = tmp_mp3_file env, media_type = Some ''audio/mpeg'',
               background = True\<rparr>, fs')"
    "fs' (tmp_mp3_file env) = Some f"
    "id3 f = Some
               \<lparr>tag_title = set_text_frame (url_decode l t),
                tag_artist = set_text_frame (url_decode l a),
                tag_album = set_text_frame (url_decode l al),
                images = [\<lparr>img_data = body response, type_ = FRONT_COVER,
                           mime_type = ''image/jpeg'',
                           description = url_decode l al @ '' Front Cover''\<rparr>],
                lyrics = [\<lparr>lyrics_text = [], lyrics_description = [], lang = ''   ''\<rparr>]\<rparr>"
    by auto
  then show ?thesis by (simp add: set_text_frame_def)
qed

theorem successful_acquisition_is_tagged_witness:
  "\<not> MOCK_MODE example_settings
   \<and> get_audio_only (example_env (Inr (Some ''stream'')) 0 200 ''cover bytes'')
       (url_decode example_lib ''abc123'') = Inr (Some ''stream'')
   \<and> stream_download (example_env (Inr (Some ''stream'')) 0 200 ''cover bytes'') ''stream''
       = Inr ''mp4 audio''
   \<and> subprocess_run (example_env (Inr (Some ''stream'')) 0 200 ''cover bytes'')
         [''/usr/bin/ffmpeg'', ''-i'', ''/tmp/tmpa1.mp4'', ''-ab'', ''320k'', ''-y'',
          ''/tmp/tmpb2.mp3''] = Inr (0, [(''/tmp/tmpb2.mp3'', ''mp3 audio'')])
   \<and> body \<lparr>status_code = 200, body = ''cover bytes''\<rparr> \<noteq> []
   \<and> tag_save_error (example_env (Inr (Some ''stream'')) 0 200 ''cover bytes'') = None
   \<and> fst (download_video_as_mp3 example_settings example_lib
             (example_env (Inr (Some ''stream'')) 0 200 ''cover bytes'') no_files
             ''abc123'' ''T'' ''A'' ''B'' ''http://x/y.jpg'')
       = Inr \<lparr>path = ''/tmp/tmpb2.mp3'', media_type = Some ''audio/mpeg'', background = True\<rparr>
   \<and> map_option id3
         (snd (download_video_as_mp3 example_settings example_lib
                 (example_env (Inr (Some ''stream'')) 0 200 ''cover bytes'') no_files
                 ''abc123'' ''T'' ''A'' ''B'' ''http://x/y.jpg'') ''/tmp/tmpb2.mp3'')
       = Some (Some
           \<lparr>tag_title = Some ''T'', tag_artist = Some ''A'', tag_album = Some ''B'',
            images = [\<lparr>img_data = ''cover bytes'', type_ = FRONT_COVER,
                       mime_type = ''image/jpeg'', description = ''B Front Cover''\<rparr>],
            lyrics = [\<lparr>lyrics_text = [], lyrics_description = [], lang = ''   ''\<rparr>]\<rparr>)"
proof -
  let ?env = "example_env (Inr (Some ''stream'')) 0 200 ''cover bytes''"
  have m: "\<not> MOCK_MODE example_settings"
    by (simp add: example_settings_def)
  have g: "get_audio_only ?env (url_decode example_lib ''abc123'') = Inr (Some ''stream'')"
    by (simp add: example_env_def)
  have d: "stream_download ?env ''stream'' = Inr ''mp4 audio''"
    by (simp add: example_env_def)
  have r: "subprocess_run ?env (split (CHR '' '')
             (FFMPEG_PATH example_settings @ '' -i '' @ tmp_mp4_file ?env
              @ '' -ab 320k -y '' @ tmp_mp3_file ?env))
           = Inr (0, [(''/tmp/tmpb2.mp3'', ''mp3 audio'')])"
    by (simp add: example_env_def example_settings_def tmp_mp4_file_def tmp_mp3_file_def)
  have h: "httpx_get ?env (url_decode example_lib ''http://x/y.jpg'')
             = Inr \<lparr>status_code = 200, body = ''cover bytes''\<rparr>"
    by (simp add: example_env_def)
  have b: "body \<lparr>status_code = 200, body = ''cover bytes''\<rparr> \<noteq> []"
    by simp
  have e: "tag_save_error ?env = None"
    by (simp add: example_env_def)
  have v: "download_video_as_mp3 example_settings example_lib ?env no_files
             ''abc123'' ''T'' ''A'' ''B'' ''http://x/y.jpg''
           = (Inr \<lparr>path = ''/tmp/tmpb2.mp3'', media_type = Some ''audio/mpeg'',
                   background = True\<rparr>,
              [''/tmp/tmpa1.mp4'' \<mapsto> \<lparr>audio = ''mp4 audio'', id3 = None\<rparr>,
               ''/tmp/tmpb2.mp3'' \<mapsto>
                 \<lparr>audio = ''mp3 audio'',
                  id3 = Some
                    \<lparr>tag_title = Some ''T'', tag_artist = Some ''A'', tag_album = Some ''B'',
                     images = [\<lparr>img_data = ''cover bytes'', type_ = FRONT_COVER,
                                mime_type = ''image/jpeg'', description = ''B Front Cover''\<rparr>],
                     lyrics = [\<lparr>lyrics_text = [], lyrics_description = [],
                                lang = ''   ''\<rparr>]\<rparr>\<rparr>])"
    by (simp add: run_defs)
  from successful_acquisition_is_tagged
         [OF m g d r h b e, where fs = no_files and t = "''T''" and a = "''A''" and al = "''B''"]
       m g d e v
  show ?thesis
    by (simp add: example_env_def)
qed

text \<open>
  C10. Claimed: the body of the cover-art response is embedded as the front-cover image
  whatever the status code is. When a response with status 404 has an empty body,
  \<^verbatim>\<open>tag.images.set\<close> is still called with it, raises \<^verbatim>\<open>ValueError\<close>, and the
  acquisition fails: nothing is embedded and no file is returned.
\<close>

theorem empty_cover_body_counterexample:
  "fst (download_video_as_mp3 example_settings example_lib
          (example_env (Inr (Some ''stream'')) 0 404 []) no_files
          ''abc123'' ''T'' ''A'' ''B'' ''http://x/y.jpg'')
     = Inl ValueError
   \<and> snd (download_video_as_mp3 example_settings example_lib
            (example_env (Inr (Some ''stream'')) 0 404 []) no_files
            ''abc123'' ''T'' ''A'' ''B'' ''http://x/y.jpg'') ''/tmp/tmpb2.mp3''
     = None"
  by (simp add: run_defs)

text \<open>
  C10, amended. The cover-art step embeds the bytes of the HTTP response body as the
  front-cover image whatever the status code of the response is, as long as the body is not
  empty: in every acquisition that gets a response with a non-empty body to the cover-art
  request and succeeds, the saved tag has exactly one image, of type \<^verbatim>\<open>FRONT_COVER\<close>,
  whose data is the response body. Nothing in the statement restricts the status code, so
  the non-empty body of a non-2xx response is embedded as well.
\<close>

theorem cover_body_embedded_for_any_status:
  assumes "\<not> MOCK_MODE st"
    and "get_audio_only env (url_decode l video_id) = Inr (Some s)"
    and "stream_download env s = Inr bytes"
    and "subprocess_run env (split (CHR '' '')
           (FFMPEG_PATH st @ '' -i '' @ tmp_mp4_file env @ '' -ab 320k -y '' @ tmp_mp3_file env))
         = Inr (0, written)"
    and "httpx_get env (url_decode l c) = Inr \<lparr>status_code = status, body = cover\<rparr>"
    and "cover \<noteq> []"
    and "tag_save_error env = None"
  shows "\<exists>fs' f tag.
           download_video_as_mp3 st l env fs video_id t a al c
             = (Inr \<lparr>path = tmp_mp3_file env, media_type = Some ''audio/mpeg'',
                     background = True\<rparr>, fs')
         \<and> fs' (tmp_mp3_file env) = Some f \<and> id3 f = Some tag
         \<and> images tag = [\<lparr>img_data = cover, type_ = FRONT_COVER, mime_type = ''image/jpeg'',
                            description = url_decode l al @ '' Front Cover''\<rparr>]"
proof -
  have b: "body \<lparr>status_code = status, body = cover\<rparr> \<noteq> []"
    using assms(6) by simp
  from download_video_as_mp3_ok [OF assms(1-5) b assms(7), of fs t a al]
  obtain fs' f where
    "download_video_as_mp3 st l env fs video_id t a al c
       = (Inr \<lparr>path = tmp_mp3_file env, media_type = Some ''audio/mpeg'',
               background = True\<rparr>, fs')"
    "fs' (tmp_mp3_file env) = Some f"
    "id3 f = Some
               \<lparr>tag_title = set_text_frame (url_decode l t),
                tag_artist = set_text_frame (url_decode l a),
                tag_album = set_text_frame (url_decode l al),
                images = [\<lparr>img_data = cover, type_ = FRONT_COVER,
                           mime_type = ''image/jpeg'',
                           description = url_decode l al @ '' Front Cover''\<rparr>],
                lyrics = [\<lparr>lyrics_text = [], lyrics_description = [], lang = ''   ''\<rparr>]\<rparr>"
    by auto
  then show ?thesis by simp
qed

theorem cover_body_embedded_for_any_status_witness:
  "\<not> MOCK_MODE example_settings
   \<and> httpx_get (example_env (Inr (Some ''stream'')) 0 404 ''not found page'')
       (url_decode example_lib ''http://x/y.jpg'')
       = Inr \<lparr>status_code = 404, body = ''not found page''\<rparr>
   \<and> ''not found page'' \<noteq> []
   \<and> fst (download_video_as_mp3 example_settings example_lib
             (example_env (Inr (Some ''stream'')) 0 404 ''not found page'') no_files
             ''abc123'' ''T'' ''A'' ''B'' ''http://x/y.jpg'')
       = Inr \<lparr>path = ''/tmp/tmpb2.mp3'', media_type = Some ''audio/mpeg'', background = True\<rparr>
   \<and> map_option (map_option images \<circ> id3)
         (snd (download_video_as_mp3 example_settings example_lib
                 (example_env (Inr (Some ''stream'')) 0 404 ''not found page'') no_files
                 ''abc123'' ''T'' ''A'' ''B'' ''http://x/y.jpg'') ''/tmp/tmpb2.mp3'')
       = Some (Some [\<lparr>img_data = ''not found page'', type_ = FRONT_COVER,
                       mime_type = ''image/jpeg'', description = ''B Front Cover''\<rparr>])"
proof -
  let ?env = "example_env (Inr (Some ''stream'')) 0 404 ''not found page''"
  have m: "\<not> MOCK_MODE example_settings"
    by (simp add: example_settings_def)
  have g: "get_audio_only ?env (url_decode example_lib ''abc123'') = Inr (Some ''stream'')"
    by (simp add: example_env_def)
  have d: "stream_download ?env ''stream'' = Inr ''mp4 audio''"
    by (simp add: example_env_def)
  have r: "subprocess_run ?env (split (CHR '' '')
             (FFMPEG_PATH example_settings @ '' -i '' @ tmp_mp4_file ?env
              @ '' -ab 320k -y '' @ tmp_mp3_file ?env))
           = Inr (0, [(''/tmp/tmpb2.mp3'', ''mp3 audio'')])"
    by (simp add: example_env_def example_settings_def tmp_mp4_file_def tmp_mp3_file_def)
  have h: "httpx_get ?env (url_decode example_lib ''http://x/y.jpg'')
             = Inr \<lparr>status_code = 404, body = ''not found page''\<rparr>"
    by (simp add: example_env_def)
  have b: "''not found page'' \<noteq> []"
    by simp
  have e: "tag_save_error ?env = None"
    by (simp add: example_env_def)
  have v: "download_video_as_mp3 example_settings example_lib ?env no_files
             ''abc123'' ''T'' ''A'' ''B'' ''http://x/y.jpg''
           = (Inr \<lparr>path = ''/tmp/tmpb2.mp3'', media_type = Some ''audio/mpeg'',
                   background = True\<rparr>,
              [''/tmp/tmpa1.mp4'' \<mapsto> \<lparr>audio = ''mp4 audio'', id3 = None\<rparr>,
               ''/tmp/tmpb2.mp3'' \<mapsto>
                 \<lparr>audio = ''mp3 audio'',
                  id3 = Some
                    \<lparr>tag_title = Some ''T'', tag_artist = Some ''A'', tag_album = Some ''B'',
                     images = [\<lparr>img_data = ''not found page'', type_ = FRONT_COVER,
                                mime_type = ''image/jpeg'', description = ''B Front Cover''\<rparr>],
                     lyrics = [\<lparr>lyrics_text = [], lyrics_description = [],
                                lang = ''   ''\<rparr>]\<rparr>\<rparr>])"
    by (simp add: run_defs)
  from cover_body_embedded_for_any_status
         [OF m g d r h b e, where fs = no_files and t = "''T''" and a = "''A''" and al = "''B''"]
       m h b v
  show ?thesis
    by simp
qed

section \<open>Properties of the metadata search\<close>

text \<open>
  C8. Claimed: whenever the metadata provider's response has a non-success status or an
  unexpected shape, the search returns the empty list and raises nothing. A response with
  status 200 whose body is not JSON makes \<^verbatim>\<open>response.json()\<close> raise
  \<^verbatim>\<open>JSONDecodeError\<close> inside the \<^verbatim>\<open>try\<close> whose handler catches
  \<^verbatim>\<open>ValidationError\<close> only: the search raises it to the caller.
\<close>

theorem non_json_body_counterexample:
  "search_track_metadata_options example_settings example_lib (example_spotify 200 NotJsonText)
     (datetime_of 1700000000000000) (datetime_of 1700000000000000)
     (datetime_of 1700000000000000)
     \<lparr>partial_title = ''T'', partial_artist = ''A'', partial_album = None\<rparr> None empty_disk
   = (Inl JSONDecodeError, None, empty_disk)"
  by (simp add: search_track_metadata_options_def cached_options_def example_spotify_def)

text \<open>
  C8, amended. In a metadata search that gets a response from the metadata provider (no
  usable cached list, a token, and a response to the search request), if the response has a
  non-success HTTP status, or has a success status and a JSON body that fails validation,
  the search returns the empty list and raises nothing.
\<close>

theorem bad_provider_response_gives_no_results:
  assumes "cached_options l cache fs tm tf (lower l (str_partial l pm)) = Inr None"
    and "get_spotify_api_token sp cache fs = (Inr (Some token), cache', fs')"
    and "search_get sp (search_url st l pm) (''Bearer '' @ token) = Inr resp"
    and "\<not> (200 \<le> status_code resp \<and> status_code resp < 300)
         \<or> (\<exists>j. body resp = JsonText j \<and> validate_search l j = None)"
  shows "search_track_metadata_options st l sp tm tf ts pm cache fs = (Inr [], cache', fs')"
  using assms by (auto simp: search_track_metadata_options_def)

theorem bad_provider_response_gives_no_results_witness:
  "cached_options example_lib None empty_disk (datetime_of 1700000000000000)
     (datetime_of 1700000000000000)
     (lower example_lib (str_partial example_lib
        \<lparr>partial_title = ''T'', partial_artist = ''A'', partial_album = None\<rparr>)) = Inr None
   \<and> search_track_metadata_options example_settings example_lib
        (example_spotify 503 (JsonText (JObj [])))
        (datetime_of 1700000000000000) (datetime_of 1700000000000000)
        (datetime_of 1700000000000000)
        \<lparr>partial_title = ''T'', partial_artist = ''A'', partial_album = None\<rparr> None empty_disk
      = (Inr [], None, empty_disk)
   \<and> search_track_metadata_options example_settings example_lib
        (example_spotify 200 (JsonText (JObj [])))
        (datetime_of 1700000000000000) (datetime_of 1700000000000000)
        (datetime_of 1700000000000000)
        \<lparr>partial_title = ''T'', partial_artist = ''A'', partial_album = None\<rparr> None empty_disk
      = (Inr [], None, empty_disk)"
proof -
  let ?pm = "\<lparr>partial_title = ''T'', partial_artist = ''A'', partial_album = None\<rparr>"
  let ?t = "datetime_of 1700000000000000"
  have c: "cached_options example_lib None empty_disk ?t ?t
             (lower example_lib (str_partial example_lib ?pm)) = Inr None"
    by (simp add: cached_options_def)
  have k: "get_spotify_api_token (example_spotify status (JsonText (JObj []))) None empty_disk
             = (Inr (Some ''token''), None, empty_disk)" for status
    by (simp add: example_spotify_def)
  have g: "search_get (example_spotify status (JsonText (JObj [])))
             (search_url example_settings example_lib ?pm)
             (''Bearer '' @ ''token'') = Inr \<lparr>status_code = status, body = JsonText (JObj [])\<rparr>"
    for status
    by (simp add: example_spotify_def)
  have ba: "\<not> (200 \<le> status_code \<lparr>status_code = 503, body = JsonText (JObj [])\<rparr>
                \<and> status_code \<lparr>status_code = 503, body = JsonText (JObj [])\<rparr> < 300)
            \<or> (\<exists>j. body \<lparr>status_code = 503, body = JsonText (JObj [])\<rparr> = JsonText j
                  \<and> validate_search example_lib j = None)"
    by simp
  have bb: "\<not> (200 \<le> status_code \<lparr>status_code = 200, body = JsonText (JObj [])\<rparr>
                \<and> status_code \<lparr>status_code = 200, body = JsonText (JObj [])\<rparr> < 300)
            \<or> (\<exists>j. body \<lparr>status_code = 200, body = JsonText (JObj [])\<rparr> = JsonText j
                  \<and> validate_search example_lib j = None)"
    by (simp add: example_lib_def)
  from bad_provider_response_gives_no_results [OF c k g ba, where ts = ?t]
       bad_provider_response_gives_no_results [OF c k g bb, where ts = ?t] c
  show ?thesis by simp
qed

end
